theory Spec2Isabelle
  imports Main
begin

section \<open>JavaScript strings and numbers\<close>

text \<open>
  Strings are lists of characters. Template literals are written out as concatenations,
  \<open>Array.prototype.join\<close>, \<open>String.prototype.includes\<close> and the ASCII part of
  \<open>toUpperCase\<close>/\<open>toLowerCase\<close> are defined here. Numbers that reach a template
  literal are catalog integers; they are rendered in decimal.
\<close>

fun join :: "string \<Rightarrow> string list \<Rightarrow> string" where
  "join sep [] = []"
| "join sep [x] = x"
| "join sep (x # y # ys) = x @ sep @ join sep (y # ys)"

definition upper_char :: "char \<Rightarrow> char" where
  "upper_char c =
     (let n = (of_char c :: nat) in if 97 \<le> n \<and> n \<le> 122 then char_of (n - 32) else c)"

definition lower_char :: "char \<Rightarrow> char" where
  "lower_char c =
     (let n = (of_char c :: nat) in if 65 \<le> n \<and> n \<le> 90 then char_of (n + 32) else c)"

definition toUpperCase :: "string \<Rightarrow> string" where
  "toUpperCase s = map upper_char s"

definition toLowerCase :: "string \<Rightarrow> string" where
  "toLowerCase s = map lower_char s"

fun starts_with :: "string \<Rightarrow> string \<Rightarrow> bool" where
  "starts_with [] s = True"
| "starts_with (p # ps) [] = False"
| "starts_with (p # ps) (c # cs) = (p = c \<and> starts_with ps cs)"

fun str_includes :: "string \<Rightarrow> string \<Rightarrow> bool" where
  "str_includes [] p = (p = [])"
| "str_includes (c # cs) p = (starts_with p (c # cs) \<or> str_includes cs p)"

definition digit_char :: "nat \<Rightarrow> char" where
  "digit_char d = char_of (48 + d)"

text \<open>The decimal digits of a natural number, and the text of an integer.\<close>

function decimal :: "nat \<Rightarrow> string" where
  "decimal n = (if 10 \<le> n then decimal (n div 10) else []) @ [digit_char (n mod 10)]"
  by pat_completeness auto
termination
  by (relation "measure id") auto

definition number_text :: "int \<Rightarrow> string" where
  "number_text i = (if 0 \<le> i then decimal (nat i) else CHR ''-'' # decimal (nat (- i)))"

text \<open>Truthiness of a \<open>string | null\<close> and of a \<open>number | null\<close> value.\<close>

fun truthy_str :: "string option \<Rightarrow> bool" where
  "truthy_str None = False"
| "truthy_str (Some s) = (s \<noteq> [])"

fun truthy_num :: "int option \<Rightarrow> bool" where
  "truthy_num None = False"
| "truthy_num (Some n) = (n \<noteq> 0)"

text \<open>How a template literal renders a value that may be \<open>undefined\<close>.\<close>

fun render_opt :: "string option \<Rightarrow> string" where
  "render_opt None = ''undefined''"
| "render_opt (Some s) = s"

section \<open>Metadata model (types/index.ts, types/comparison.ts)\<close>

record TableColumn =
  col_name :: string
  dataType :: string
  isNullable :: bool
  columnDefault :: "string option"
  characterMaximumLength :: "int option"
  numericPrecision :: "int option"
  numericScale :: "int option"
  udtName :: string

datatype ConstraintType = PRIMARY_KEY | FOREIGN_KEY | UNIQUE | CHECK

record TableConstraint =
  con_name :: string
  con_type :: ConstraintType
  con_columns :: "string list"
  foreignTable :: "string option"
  foreignColumns :: "string list option"
  con_definition :: "string option"

record TableIndex =
  idx_name :: string
  idx_definition :: string

record TableSequence =
  seq_name :: string
  seq_dataType :: string
  startValue :: string
  minValue :: string
  maxValue :: string
  incrementBy :: string
  cycle :: bool
  cacheSize :: string
  lastValue :: string

record TableMetadata =
  tbl_name :: string
  tbl_schema :: string
  columns :: "TableColumn list"
  constraints :: "TableConstraint list"
  indexes :: "TableIndex list"
  sequences :: "TableSequence list"

record DatabaseObject =
  obj_name :: string
  obj_schema :: string
  obj_definition :: string
  tableName :: "string option"

datatype DiffType =
  MISSING_TABLE | MISSING_COLUMN | TYPE_MISMATCH | NULLABILITY_MISMATCH | DEFAULT_MISMATCH
| MISSING_CONSTRAINT | MISSING_INDEX | MISSING_FUNCTION | MISSING_TRIGGER
| FUNCTION_MISMATCH | TRIGGER_MISMATCH

text \<open>
  \<open>table\<close> is declared \<open>string\<close>; the trigger diffs store \<open>sTrig.tableName!\<close>, which
  is \<open>undefined\<close> at run time when the object carries no table, so the field is an option.
\<close>

record SchemaDiff =
  diff_type :: DiffType
  table :: "string option"
  column :: "string option"
  expected :: "string option"
  actual :: "string option"
  details :: "string option"
  diff_fix :: "string option"

record ComparisonResult =
  sourceDb :: string
  targetDb :: string
  diffs :: "SchemaDiff list"

section \<open>PostgresDDLGenerator\<close>

definition quote_join :: "string list \<Rightarrow> string" where
  \<open>quote_join cs = join '', '' (map (\<lambda>c. ''"'' @ c @ ''"'') cs)\<close>

definition pg_generateDatabaseCreate :: "string \<Rightarrow> string" where
  \<open>pg_generateDatabaseCreate databaseName =
     ''-- Database Creation\<newline>CREATE DATABASE "'' @ databaseName @ ''";\<newline>\<newline>''\<close>

definition pg_generateSchemaCreate :: "string \<Rightarrow> string" where
  \<open>pg_generateSchemaCreate schema =
     (if schema = ''public'' then ''''
      else ''CREATE SCHEMA IF NOT EXISTS "'' @ schema @ ''";\<newline>\<newline>'')\<close>

definition pg_typeStr :: "TableColumn \<Rightarrow> string" where
  \<open>pg_typeStr col =
     (let typeStr = toUpperCase (dataType col) in
      if truthy_num (characterMaximumLength col)
      then typeStr @ ''('' @ number_text (the (characterMaximumLength col)) @ '')''
      else (case (numericPrecision col, numericScale col) of
              (Some p, Some s) \<Rightarrow> typeStr @ ''('' @ number_text p @ '', '' @ number_text s @ '')''
            | _ \<Rightarrow> typeStr))\<close>

definition pg_formatColumn :: "TableColumn \<Rightarrow> string" where
  \<open>pg_formatColumn col =
     (let parts = [''"'' @ col_name col @ ''"'', pg_typeStr col];
          parts = (if \<not> isNullable col then parts @ [''NOT NULL''] else parts);
          parts = (if truthy_str (columnDefault col)
                   then parts @ [''DEFAULT '' @ the (columnDefault col)] else parts)
      in join '' '' parts)\<close>

definition pg_pk_stmt :: "TableMetadata \<Rightarrow> TableConstraint \<Rightarrow> string" where
  \<open>pg_pk_stmt meta pk =
     ''ALTER TABLE "'' @ tbl_schema meta @ ''"."'' @ tbl_name meta @ ''" ADD CONSTRAINT "''
       @ con_name pk @ ''" PRIMARY KEY ('' @ quote_join (con_columns pk) @ '');\<newline>''\<close>

definition pg_generateTableCreate :: "TableMetadata \<Rightarrow> string" where
  \<open>pg_generateTableCreate meta =
     (let cols = join '',\<newline>  '' (map pg_formatColumn (columns meta));
          sql = ''CREATE TABLE "'' @ tbl_schema meta @ ''"."'' @ tbl_name meta @ ''" (\<newline>  ''
                  @ cols @ ''\<newline>);\<newline>\<newline>'';
          pks = filter (\<lambda>c. con_type c = PRIMARY_KEY) (constraints meta)
      in foldl (\<lambda>sql pk. sql @ pg_pk_stmt meta pk) sql pks)\<close>

definition pg_fk_stmt :: "TableMetadata \<Rightarrow> TableConstraint \<Rightarrow> string" where
  \<open>pg_fk_stmt meta fk =
     ''ALTER TABLE "'' @ tbl_schema meta @ ''"."'' @ tbl_name meta @ ''" ADD CONSTRAINT "''
       @ con_name fk @ ''" FOREIGN KEY ('' @ quote_join (con_columns fk) @ '') REFERENCES "''
       @ tbl_schema meta @ ''"."'' @ render_opt (foreignTable fk) @ ''" (''
       @ render_opt (map_option quote_join (foreignColumns fk)) @ '');\<newline>''\<close>

definition pg_unique_stmt :: "TableMetadata \<Rightarrow> TableConstraint \<Rightarrow> string" where
  \<open>pg_unique_stmt meta u =
     ''ALTER TABLE "'' @ tbl_schema meta @ ''"."'' @ tbl_name meta @ ''" ADD CONSTRAINT "''
       @ con_name u @ ''" UNIQUE ('' @ quote_join (con_columns u) @ '');\<newline>''\<close>

definition pg_generateConstraints :: "TableMetadata \<Rightarrow> string" where
  \<open>pg_generateConstraints meta =
     (let sql = '''';
          fks = filter (\<lambda>c. con_type c = FOREIGN_KEY) (constraints meta);
          sql = foldl (\<lambda>sql fk. sql @ pg_fk_stmt meta fk) sql fks;
          uniques = filter (\<lambda>c. con_type c = UNIQUE) (constraints meta);
          sql = foldl (\<lambda>sql u. sql @ pg_unique_stmt meta u) sql uniques
      in if sql \<noteq> '''' then sql @ ''\<newline>'' else '''')\<close>

definition pg_generateIndexes :: "TableMetadata \<Rightarrow> string" where
  \<open>pg_generateIndexes meta =
     (let sql = foldl (\<lambda>sql idx. sql @ idx_definition idx @ '';\<newline>'') '''' (indexes meta)
      in if sql \<noteq> '''' then sql @ ''\<newline>'' else '''')\<close>

definition pg_create_sequence :: "TableMetadata \<Rightarrow> TableSequence \<Rightarrow> string" where
  \<open>pg_create_sequence meta seq =
     ''CREATE SEQUENCE IF NOT EXISTS "'' @ tbl_schema meta @ ''"."'' @ seq_name seq @ ''"\<newline>''
       @ ''  START WITH '' @ startValue seq @ ''\<newline>''
       @ ''  INCREMENT BY '' @ incrementBy seq @ ''\<newline>''
       @ ''  NO MINVALUE\<newline>''
       @ ''  NO MAXVALUE\<newline>''
       @ ''  CACHE '' @ cacheSize seq @ '';\<newline>\<newline>''\<close>

definition pg_setval :: "TableMetadata \<Rightarrow> TableSequence \<Rightarrow> string" where
  \<open>pg_setval meta seq =
     ''SELECT setval('' @ [CHR 0x27] @ ''"'' @ tbl_schema meta @ ''"."'' @ seq_name seq @ ''"''
       @ [CHR 0x27] @ '', '' @ lastValue seq @ '', true);\<newline>\<newline>''\<close>

definition pg_generateSequences :: "TableMetadata \<Rightarrow> string" where
  \<open>pg_generateSequences meta =
     foldl (\<lambda>sql seq.
        (let sql = sql @ pg_create_sequence meta seq
         in if lastValue seq \<noteq> '''' then sql @ pg_setval meta seq else sql))
       '''' (sequences meta)\<close>

definition pg_generateAddColumn :: "string \<Rightarrow> string \<Rightarrow> TableColumn \<Rightarrow> string" where
  \<open>pg_generateAddColumn tbl schema col =
     (let sql = ''ALTER TABLE "'' @ schema @ ''"."'' @ tbl @ ''" ADD COLUMN "'' @ col_name col
                  @ ''" '' @ pg_typeStr col;
          sql = (if \<not> isNullable col then sql @ '' NOT NULL'' else sql);
          sql = (if truthy_str (columnDefault col)
                 then sql @ '' DEFAULT '' @ the (columnDefault col) else sql)
      in sql @ '';'')\<close>

definition pg_generateAlterColumnType :: "string \<Rightarrow> string \<Rightarrow> TableColumn \<Rightarrow> string" where
  \<open>pg_generateAlterColumnType tbl schema col =
     ''ALTER TABLE "'' @ schema @ ''"."'' @ tbl @ ''" ALTER COLUMN "'' @ col_name col
       @ ''" TYPE '' @ pg_typeStr col @ '';''\<close>

definition pg_generateAlterColumnNullability :: "string \<Rightarrow> string \<Rightarrow> TableColumn \<Rightarrow> string" where
  \<open>pg_generateAlterColumnNullability tbl schema col =
     ''ALTER TABLE "'' @ schema @ ''"."'' @ tbl @ ''" ALTER COLUMN "'' @ col_name col @ ''" ''
       @ (if isNullable col then ''DROP NOT NULL'' else ''SET NOT NULL'') @ '';''\<close>

definition pg_generateAlterColumnDefault :: "string \<Rightarrow> string \<Rightarrow> TableColumn \<Rightarrow> string" where
  \<open>pg_generateAlterColumnDefault tbl schema col =
     (if truthy_str (columnDefault col)
      then ''ALTER TABLE "'' @ schema @ ''"."'' @ tbl @ ''" ALTER COLUMN "'' @ col_name col
             @ ''" SET DEFAULT '' @ the (columnDefault col) @ '';''
      else ''ALTER TABLE "'' @ schema @ ''"."'' @ tbl @ ''" ALTER COLUMN "'' @ col_name col
             @ ''" DROP DEFAULT;'')\<close>

definition pg_generateDropTrigger :: "string \<Rightarrow> string \<Rightarrow> string \<Rightarrow> string" where
  \<open>pg_generateDropTrigger tbl schema triggerName =
     ''DROP TRIGGER IF EXISTS "'' @ triggerName @ ''" ON "'' @ schema @ ''"."'' @ tbl @ ''";''\<close>

definition pg_generateConstraintFix :: "string \<Rightarrow> string \<Rightarrow> TableConstraint \<Rightarrow> string" where
  \<open>pg_generateConstraintFix tbl schema c =
     (if con_type c = PRIMARY_KEY then
        ''ALTER TABLE "'' @ schema @ ''"."'' @ tbl @ ''" ADD CONSTRAINT "'' @ con_name c
          @ ''" PRIMARY KEY ('' @ quote_join (con_columns c) @ '');''
      else if con_type c = FOREIGN_KEY then
        ''ALTER TABLE "'' @ schema @ ''"."'' @ tbl @ ''" ADD CONSTRAINT "'' @ con_name c
          @ ''" FOREIGN KEY ('' @ quote_join (con_columns c) @ '') REFERENCES "'' @ schema
          @ ''"."'' @ render_opt (foreignTable c) @ ''" (''
          @ render_opt (map_option quote_join (foreignColumns c)) @ '');''
      else if con_type c = UNIQUE then
        ''ALTER TABLE "'' @ schema @ ''"."'' @ tbl @ ''" ADD CONSTRAINT "'' @ con_name c
          @ ''" UNIQUE ('' @ quote_join (con_columns c) @ '');''
      else '''')\<close>

section \<open>OracleDDLGenerator\<close>

definition ora_generateDatabaseCreate :: "string \<Rightarrow> string" where
  \<open>ora_generateDatabaseCreate databaseName =
     ''-- Oracle Database Creation (Handled externally or via Tablespaces)\<newline>''
       @ ''-- CREATE TABLESPACE '' @ databaseName @ ''_DATA ... ;\<newline>\<newline>''\<close>

definition ora_generateSchemaCreate :: "string \<Rightarrow> string" where
  \<open>ora_generateSchemaCreate schema =
     ''-- Oracle User/Schema Creation\<newline>-- CREATE USER '' @ schema
       @ '' IDENTIFIED BY password;\<newline>-- GRANT CONNECT, RESOURCE TO '' @ schema
       @ '';\<newline>\<newline>''\<close>

definition ora_mapType :: "string \<Rightarrow> string" where
  \<open>ora_mapType dt =
     (if str_includes dt ''VARCHAR'' \<or> str_includes dt ''TEXT'' then ''VARCHAR2''
      else if str_includes dt ''INT'' \<or> str_includes dt ''NUMERIC''
              \<or> str_includes dt ''DECIMAL'' then ''NUMBER''
      else if str_includes dt ''TIMESTAMP'' then ''TIMESTAMP''
      else if str_includes dt ''BOOLEAN'' then ''NUMBER(1)''
      else dt)\<close>

definition ora_formatColumn :: "TableColumn \<Rightarrow> string" where
  \<open>ora_formatColumn col =
     (let dt = ora_mapType (toUpperCase (dataType col));
          ty = (if truthy_num (characterMaximumLength col) \<and> dt = ''VARCHAR2''
                then dt @ ''('' @ number_text (the (characterMaximumLength col)) @ '')''
                else (case (numericPrecision col, numericScale col) of
                        (Some p, Some s) \<Rightarrow>
                          if dt = ''NUMBER''
                          then dt @ ''('' @ number_text p @ '', '' @ number_text s @ '')''
                          else dt
                      | _ \<Rightarrow> dt));
          parts = [col_name col, ty];
          parts = (if \<not> isNullable col then parts @ [''NOT NULL''] else parts);
          parts = (if truthy_str (columnDefault col)
                   then parts @ [''DEFAULT '' @ the (columnDefault col)] else parts)
      in join '' '' parts)\<close>

definition ora_pk_stmt :: "TableMetadata \<Rightarrow> TableConstraint \<Rightarrow> string" where
  \<open>ora_pk_stmt meta pk =
     ''ALTER TABLE '' @ tbl_name meta @ '' ADD CONSTRAINT '' @ con_name pk @ '' PRIMARY KEY (''
       @ join '', '' (con_columns pk) @ '');\<newline>''\<close>

definition ora_generateTableCreate :: "TableMetadata \<Rightarrow> string" where
  \<open>ora_generateTableCreate meta =
     (let cols = join '',\<newline>  '' (map ora_formatColumn (columns meta));
          sql = ''CREATE TABLE '' @ tbl_name meta @ '' (\<newline>  '' @ cols @ ''\<newline>);\<newline>\<newline>'';
          pks = filter (\<lambda>c. con_type c = PRIMARY_KEY) (constraints meta)
      in foldl (\<lambda>sql pk. sql @ ora_pk_stmt meta pk) sql pks)\<close>

definition ora_fk_stmt :: "TableMetadata \<Rightarrow> TableConstraint \<Rightarrow> string" where
  \<open>ora_fk_stmt meta fk =
     ''ALTER TABLE '' @ tbl_name meta @ '' ADD CONSTRAINT '' @ con_name fk @ '' FOREIGN KEY (''
       @ join '', '' (con_columns fk) @ '') REFERENCES '' @ render_opt (foreignTable fk) @ '' (''
       @ render_opt (map_option (join '', '') (foreignColumns fk)) @ '');\<newline>''\<close>

definition ora_unique_stmt :: "TableMetadata \<Rightarrow> TableConstraint \<Rightarrow> string" where
  \<open>ora_unique_stmt meta u =
     ''ALTER TABLE '' @ tbl_name meta @ '' ADD CONSTRAINT '' @ con_name u @ '' UNIQUE (''
       @ join '', '' (con_columns u) @ '');\<newline>''\<close>

definition ora_generateConstraints :: "TableMetadata \<Rightarrow> string" where
  \<open>ora_generateConstraints meta =
     (let sql = '''';
          fks = filter (\<lambda>c. con_type c = FOREIGN_KEY) (constraints meta);
          sql = foldl (\<lambda>sql fk. sql @ ora_fk_stmt meta fk) sql fks;
          uniques = filter (\<lambda>c. con_type c = UNIQUE) (constraints meta);
          sql = foldl (\<lambda>sql u. sql @ ora_unique_stmt meta u) sql uniques
      in if sql \<noteq> '''' then sql @ ''\<newline>'' else '''')\<close>

definition ora_generateIndexes :: "TableMetadata \<Rightarrow> string" where
  \<open>ora_generateIndexes meta =
     (let sql = foldl (\<lambda>sql idx. sql @ ''-- '' @ idx_definition idx @ '';\<newline>'') ''''
                  (indexes meta)
      in if sql \<noteq> '''' then sql @ ''\<newline>'' else '''')\<close>

definition ora_generateSequences :: "TableMetadata \<Rightarrow> string" where
  \<open>ora_generateSequences meta = ''-- Oracle Sequences are handled as independent objects.\<newline>''\<close>

definition ora_generateAddColumn :: "string \<Rightarrow> string \<Rightarrow> TableColumn \<Rightarrow> string" where
  \<open>ora_generateAddColumn tbl schema col =
     ''ALTER TABLE '' @ tbl @ '' ADD ('' @ ora_formatColumn col @ '');''\<close>

definition ora_generateAlterColumnType :: "string \<Rightarrow> string \<Rightarrow> TableColumn \<Rightarrow> string" where
  \<open>ora_generateAlterColumnType tbl schema col =
     ''ALTER TABLE '' @ tbl @ '' MODIFY ('' @ ora_formatColumn col @ '');''\<close>

definition ora_generateAlterColumnNullability :: "string \<Rightarrow> string \<Rightarrow> TableColumn \<Rightarrow> string" where
  \<open>ora_generateAlterColumnNullability tbl schema col =
     ''ALTER TABLE '' @ tbl @ '' MODIFY ('' @ col_name col @ '' ''
       @ (if isNullable col then ''NULL'' else ''NOT NULL'') @ '');''\<close>

definition ora_generateAlterColumnDefault :: "string \<Rightarrow> string \<Rightarrow> TableColumn \<Rightarrow> string" where
  \<open>ora_generateAlterColumnDefault tbl schema col =
     ''ALTER TABLE '' @ tbl @ '' MODIFY ('' @ col_name col @ '' DEFAULT ''
       @ (if truthy_str (columnDefault col) then the (columnDefault col) else ''NULL'') @ '');''\<close>

definition ora_generateDropTrigger :: "string \<Rightarrow> string \<Rightarrow> string \<Rightarrow> string" where
  \<open>ora_generateDropTrigger tbl schema triggerName = ''DROP TRIGGER '' @ triggerName @ '';''\<close>

definition ora_generateConstraintFix :: "string \<Rightarrow> string \<Rightarrow> TableConstraint \<Rightarrow> string" where
  \<open>ora_generateConstraintFix tbl schema c =
     (if con_type c = PRIMARY_KEY then
        ''ALTER TABLE '' @ tbl @ '' ADD CONSTRAINT '' @ con_name c @ '' PRIMARY KEY (''
          @ join '', '' (con_columns c) @ '');''
      else if con_type c = FOREIGN_KEY then
        ''ALTER TABLE '' @ tbl @ '' ADD CONSTRAINT '' @ con_name c @ '' FOREIGN KEY (''
          @ join '', '' (con_columns c) @ '') REFERENCES '' @ render_opt (foreignTable c)
          @ '' ('' @ render_opt (map_option (join '', '') (foreignColumns c)) @ '');''
      else if con_type c = UNIQUE then
        ''ALTER TABLE '' @ tbl @ '' ADD CONSTRAINT '' @ con_name c @ '' UNIQUE (''
          @ join '', '' (con_columns c) @ '');''
      else '''')\<close>

section \<open>The generator interface and the engine factory\<close>

record IDDLGenerator =
  generateDatabaseCreate :: "string \<Rightarrow> string"
  generateSchemaCreate :: "string \<Rightarrow> string"
  generateTableCreate :: "TableMetadata \<Rightarrow> string"
  generateConstraints :: "TableMetadata \<Rightarrow> string"
  generateIndexes :: "TableMetadata \<Rightarrow> string"
  generateSequences :: "TableMetadata \<Rightarrow> string"
  generateAddColumn :: "string \<Rightarrow> string \<Rightarrow> TableColumn \<Rightarrow> string"
  generateAlterColumnType :: "string \<Rightarrow> string \<Rightarrow> TableColumn \<Rightarrow> string"
  generateAlterColumnNullability :: "string \<Rightarrow> string \<Rightarrow> TableColumn \<Rightarrow> string"
  generateAlterColumnDefault :: "string \<Rightarrow> string \<Rightarrow> TableColumn \<Rightarrow> string"
  generateDropTrigger :: "string \<Rightarrow> string \<Rightarrow> string \<Rightarrow> string"
  generateConstraintFix :: "string \<Rightarrow> string \<Rightarrow> TableConstraint \<Rightarrow> string"

definition PostgresDDLGenerator :: IDDLGenerator where
  "PostgresDDLGenerator =
     \<lparr> generateDatabaseCreate = pg_generateDatabaseCreate,
       generateSchemaCreate = pg_generateSchemaCreate,
       generateTableCreate = pg_generateTableCreate,
       generateConstraints = pg_generateConstraints,
       generateIndexes = pg_generateIndexes,
       generateSequences = pg_generateSequences,
       generateAddColumn = pg_generateAddColumn,
       generateAlterColumnType = pg_generateAlterColumnType,
       generateAlterColumnNullability = pg_generateAlterColumnNullability,
       generateAlterColumnDefault = pg_generateAlterColumnDefault,
       generateDropTrigger = pg_generateDropTrigger,
       generateConstraintFix = pg_generateConstraintFix \<rparr>"

definition OracleDDLGenerator :: IDDLGenerator where
  "OracleDDLGenerator =
     \<lparr> generateDatabaseCreate = ora_generateDatabaseCreate,
       generateSchemaCreate = ora_generateSchemaCreate,
       generateTableCreate = ora_generateTableCreate,
       generateConstraints = ora_generateConstraints,
       generateIndexes = ora_generateIndexes,
       generateSequences = ora_generateSequences,
       generateAddColumn = ora_generateAddColumn,
       generateAlterColumnType = ora_generateAlterColumnType,
       generateAlterColumnNullability = ora_generateAlterColumnNullability,
       generateAlterColumnDefault = ora_generateAlterColumnDefault,
       generateDropTrigger = ora_generateDropTrigger,
       generateConstraintFix = ora_generateConstraintFix \<rparr>"

datatype DbType = Postgres | Oracle

fun createGenerator :: "DbType \<Rightarrow> IDDLGenerator" where
  "createGenerator Postgres = PostgresDDLGenerator"
| "createGenerator Oracle = OracleDDLGenerator"

section \<open>Errors and the inspector interface\<close>

text \<open>A thrown JavaScript \<open>Error\<close>, with its message. A rejected query is one of these.\<close>

datatype error = Error string

record ISchemaInspector =
  listTables :: "string \<Rightarrow> string list option \<Rightarrow> error + string list"
  getTableMetadata :: "string \<Rightarrow> string \<Rightarrow> error + TableMetadata"
  listFunctions :: "string \<Rightarrow> error + DatabaseObject list"
  listTriggers :: "string \<Rightarrow> error + DatabaseObject list"

section \<open>PostgresInspector: constraints and sequences\<close>

text \<open>
  One row of the flattened (constraint, column) join of \<open>getConstraints\<close>. The two
  \<open>ccu\<close> columns come from a LEFT JOIN and may be null.
\<close>

record ConstraintRow =
  row_name :: string
  row_type :: ConstraintType
  column_name :: string
  foreign_table :: "string option"
  foreign_column :: "string option"

text \<open>
  \<open>Map<string, TableConstraint>\<close> keeps its keys in insertion order; it is an
  association list in which \<open>set\<close> on a new key appends.
\<close>

type_synonym constraintsMap = "(string \<times> TableConstraint) list"

definition map_has :: "constraintsMap \<Rightarrow> string \<Rightarrow> bool" where
  "map_has m k = (k \<in> set (map fst m))"

definition map_set :: "constraintsMap \<Rightarrow> string \<Rightarrow> TableConstraint \<Rightarrow> constraintsMap" where
  "map_set m k v =
     (if map_has m k then map (\<lambda>(k', v'). if k' = k then (k', v) else (k', v')) m
      else m @ [(k, v)])"

text \<open>The object returned by \<open>get\<close> is mutated in place: the entry of the key is updated.\<close>

definition map_update_at :: "constraintsMap \<Rightarrow> string \<Rightarrow> (TableConstraint \<Rightarrow> TableConstraint)
    \<Rightarrow> constraintsMap" where
  "map_update_at m k f = map (\<lambda>(k', v'). if k' = k then (k', f v') else (k', v')) m"

definition push_column :: "ConstraintRow \<Rightarrow> TableConstraint \<Rightarrow> TableConstraint" where
  "push_column row c =
     (if column_name row \<notin> set (con_columns c)
      then c\<lparr>con_columns := con_columns c @ [column_name row]\<rparr> else c)"

definition push_foreign_column :: "ConstraintRow \<Rightarrow> TableConstraint \<Rightarrow> TableConstraint" where
  "push_foreign_column row c =
     (if truthy_str (foreign_column row) then
        (case foreignColumns c of
           None \<Rightarrow> c
         | Some fcs \<Rightarrow>
             if the (foreign_column row) \<notin> set fcs
             then c\<lparr>foreignColumns := Some (fcs @ [the (foreign_column row)])\<rparr> else c)
      else c)"

definition constraint_step :: "constraintsMap \<Rightarrow> ConstraintRow \<Rightarrow> constraintsMap" where
  "constraint_step m row =
     (let m1 = (if \<not> map_has m (row_name row)
                then map_set m (row_name row)
                       \<lparr> con_name = row_name row, con_type = row_type row, con_columns = [],
                         foreignTable =
                           (if truthy_str (foreign_table row) then foreign_table row else None),
                         foreignColumns = Some [], con_definition = None \<rparr>
                else m)
      in map_update_at m1 (row_name row) (\<lambda>c. push_foreign_column row (push_column row c)))"

text \<open>The argument is the outcome of the catalog query.\<close>

definition getConstraints :: "error + ConstraintRow list \<Rightarrow> error + TableConstraint list" where
  "getConstraints queried =
     (case queried of
        Inl e \<Rightarrow> Inl e
      | Inr rows \<Rightarrow> Inr (map snd (foldl constraint_step [] rows)))"

text \<open>One row of \<open>pg_sequences\<close>; \<open>last_value\<close> is null for a sequence never used.\<close>

record SequenceDetails =
  sd_sequencename :: string
  sd_data_type :: string
  sd_start_value :: string
  sd_min_value :: string
  sd_max_value :: string
  sd_increment_by :: string
  sd_cycle :: bool
  sd_cache_size :: string
  sd_last_value :: "string option"

definition sequence_of_details :: "SequenceDetails \<Rightarrow> TableSequence" where
  "sequence_of_details sd =
     \<lparr> seq_name = sd_sequencename sd, seq_dataType = sd_data_type sd,
       startValue = sd_start_value sd, minValue = sd_min_value sd, maxValue = sd_max_value sd,
       incrementBy = sd_increment_by sd, cycle = sd_cycle sd, cacheSize = sd_cache_size sd,
       lastValue = (if truthy_str (sd_last_value sd) then the (sd_last_value sd)
                    else sd_start_value sd) \<rparr>"

text \<open>
  The argument is the outcome of the dependency query, each of whose rows is given as the
  outcome of its \<open>pg_sequences\<close> query.
\<close>

fun collect_sequences :: "(error + SequenceDetails list) list \<Rightarrow> TableSequence list
    \<Rightarrow> error + TableSequence list" where
  "collect_sequences [] result = Inr result"
| "collect_sequences (Inl e # rows) result = Inl e"
| "collect_sequences (Inr [] # rows) result = collect_sequences rows result"
| "collect_sequences (Inr (sd # _) # rows) result =
     collect_sequences rows (result @ [sequence_of_details sd])"

definition getSequences :: "error + (error + SequenceDetails list) list
    \<Rightarrow> error + TableSequence list" where
  "getSequences queried =
     (case queried of Inl e \<Rightarrow> Inl e | Inr rows \<Rightarrow> collect_sequences rows [])"

section \<open>PostgresExtractor\<close>

text \<open>
  The values a row can hold. A number is an integer here (fractions and the rendering of
  floating-point values are outside the model); an object other than an array or a
  \<open>Buffer\<close> is given by the text its \<open>toString()\<close> returns. Strings are byte strings,
  so \<open>Buffer.toString()\<close> is the bytes themselves. \<open>formatValue\<close> returns before it
  would call \<open>toString()\<close> on null or undefined; inside an array, \<open>Array.toString\<close>
  renders both as the empty string.
\<close>

datatype jsval =
  JNull | JUndefined | JBool bool | JNum int | JStr string | JBuffer "nat list"
| JArray "jsval list" | JObject string

fun truthy :: "jsval \<Rightarrow> bool" where
  "truthy JNull = False"
| "truthy JUndefined = False"
| "truthy (JBool b) = b"
| "truthy (JNum n) = (n \<noteq> 0)"
| "truthy (JStr s) = (s \<noteq> [])"
| "truthy _ = True"

fun js_toString :: "jsval \<Rightarrow> string" where
  "js_toString JNull = ''null''"
| "js_toString JUndefined = ''undefined''"
| "js_toString (JBool b) = (if b then ''true'' else ''false'')"
| "js_toString (JNum n) = number_text n"
| "js_toString (JStr s) = s"
| "js_toString (JBuffer bs) = map char_of bs"
| "js_toString (JArray vs) =
     join '','' (map (\<lambda>v. if v = JNull \<or> v = JUndefined then [] else js_toString v) vs)"
| "js_toString (JObject s) = s"

definition hex_digit :: "nat \<Rightarrow> char" where
  "hex_digit d = (if d < 10 then char_of (48 + d) else char_of (87 + d))"

definition hex_byte :: "nat \<Rightarrow> string" where
  "hex_byte b = [hex_digit ((b mod 256) div 16), hex_digit (b mod 16)]"

definition toString_hex :: "nat list \<Rightarrow> string" where
  "toString_hex bs = concat (map hex_byte bs)"

text \<open>\<open>s.replace(/'/g, "''")\<close>\<close>

definition double_quotes :: "string \<Rightarrow> string" where
  "double_quotes s = concat (map (\<lambda>c. if c = CHR 0x27 then [CHR 0x27, CHR 0x27] else [c]) s)"

definition is_numeric_type :: "string \<Rightarrow> bool" where
  "is_numeric_type t =
     (str_includes t ''int'' \<or> str_includes t ''decimal'' \<or> str_includes t ''numeric''
      \<or> str_includes t ''real'' \<or> str_includes t ''double'')"

text \<open>\<open>JSON.stringify\<close> is the runtime's; it is the parameter \<open>stringify\<close>.\<close>

fun formatValue :: "(jsval \<Rightarrow> string) \<Rightarrow> jsval \<Rightarrow> string \<Rightarrow> string" where
  "formatValue stringify JNull ty = ''NULL''"
| "formatValue stringify JUndefined ty = ''NULL''"
| "formatValue stringify val ty =
     (let t = toLowerCase ty in
      if t = ''boolean'' then (if truthy val then ''TRUE'' else ''FALSE'')
      else if is_numeric_type t then js_toString val
      else if str_includes t ''json''
        then [CHR 0x27] @ double_quotes (stringify val) @ [CHR 0x27] @ ''::'' @ t
      else if t = ''bytea'' then
        (case val of
           JBuffer bs \<Rightarrow> [CHR 0x27] @ [CHR 0x5C] @ ''x'' @ toString_hex bs @ [CHR 0x27]
         | _ \<Rightarrow> [CHR 0x27] @ double_quotes (js_toString val) @ [CHR 0x27])
      else
        (case val of
           JArray vs \<Rightarrow>
             ''ARRAY['' @ join '','' (map (\<lambda>v. formatValue stringify v ''text'') vs) @ '']''
         | _ \<Rightarrow> [CHR 0x27] @ double_quotes (js_toString val) @ [CHR 0x27]))"

text \<open>A row object; \<open>row[c.name]\<close> is \<open>undefined\<close> for a missing key.\<close>

type_synonym row = "(string \<times> jsval) list"

definition row_get :: "row \<Rightarrow> string \<Rightarrow> jsval" where
  "row_get r k = (case map_of r k of None \<Rightarrow> JUndefined | Some v \<Rightarrow> v)"

definition formatInsert :: "(jsval \<Rightarrow> string) \<Rightarrow> TableMetadata \<Rightarrow> row \<Rightarrow> string" where
  \<open>formatInsert stringify meta r =
     (let cols = join '', '' (map (\<lambda>c. ''"'' @ col_name c @ ''"'') (columns meta));
          vals = join '', ''
                   (map (\<lambda>c. formatValue stringify (row_get r (col_name c)) (dataType c))
                      (columns meta))
      in ''INSERT INTO '' @ tbl_schema meta @ ''.'' @ tbl_name meta @ '' ('' @ cols
           @ '') VALUES ('' @ vals @ '');'')\<close>

text \<open>
  A server-side cursor: the rows not yet fetched, and, when the server is going to fail,
  the number of reads that still succeed and the error of the read after them.
  \<open>cursor.read(n)\<close> delivers the next at most \<open>n\<close> rows.
\<close>

record Cursor =
  remaining :: "row list"
  fault :: "(nat \<times> error) option"

definition cursor_read :: "nat \<Rightarrow> Cursor \<Rightarrow> error + (row list \<times> Cursor)" where
  "cursor_read n c =
     (case fault c of
        Some (0, e) \<Rightarrow> Inl e
      | Some (Suc k, e) \<Rightarrow>
          Inr (take n (remaining c), c\<lparr>remaining := drop n (remaining c), fault := Some (k, e)\<rparr>)
      | None \<Rightarrow> Inr (take n (remaining c), c\<lparr>remaining := drop n (remaining c)\<rparr>))"

text \<open>
  What the generator does until it is exhausted: the batches it yields, in order, the
  error that ended it (if one did), and the sizes of the pages the cursor returned. The
  \<open>finally\<close> block, which closes the cursor and releases the client, changes nothing
  of this and is left out.
\<close>

record Streamed =
  batches :: "string list list"
  failure :: "error option"
  fetches :: "nat list"

function stream_loop :: "(jsval \<Rightarrow> string) \<Rightarrow> TableMetadata \<Rightarrow> nat \<Rightarrow> Cursor \<Rightarrow> Streamed" where
  "stream_loop stringify meta chunkSize cursor =
     (case cursor_read chunkSize cursor of
        Inl err \<Rightarrow> \<lparr> batches = [], failure = Some err, fetches = [] \<rparr>
      | Inr (rows, cursor') \<Rightarrow>
          if length rows > 0 then
            (let insertStatements = map (formatInsert stringify meta) rows;
                 rest = stream_loop stringify meta chunkSize cursor'
             in rest\<lparr> batches := insertStatements # batches rest,
                       fetches := length rows # fetches rest \<rparr>)
          else \<lparr> batches = [], failure = None, fetches = [0] \<rparr>)"
  by pat_completeness auto
termination
proof (relation "measure (\<lambda>(stringify, meta, chunkSize, cursor). length (remaining cursor))")
  show "wf (measure (\<lambda>(stringify, meta, chunkSize, cursor). length (remaining cursor)))"
    by simp
next
  fix stringify :: "jsval \<Rightarrow> string" and meta :: TableMetadata and chunkSize :: nat
    and cursor :: Cursor and x :: "row list \<times> Cursor" and rows :: "row list" and cursor' :: Cursor
  assume rd: "cursor_read chunkSize cursor = Inr x" and x: "(rows, cursor') = x"
    and pos: "0 < length rows"
  from rd x have rows: "rows = take chunkSize (remaining cursor)"
    and rem: "remaining cursor' = drop chunkSize (remaining cursor)"
    by (auto simp: cursor_read_def split: option.splits prod.splits nat.splits)
  from pos rows have "0 < chunkSize" and "remaining cursor \<noteq> []"
    by (cases chunkSize; auto)+
  with rem show "((stringify, meta, chunkSize, cursor'), (stringify, meta, chunkSize, cursor))
      \<in> measure (\<lambda>(stringify, meta, chunkSize, cursor). length (remaining cursor))"
    by simp
qed

declare stream_loop.simps [simp del]

text \<open>
  \<open>db\<close> is the connection: what \<open>getClient\<close> and the cursor opened on a query give.
  The default \<open>chunkSize\<close> is 1000.
\<close>

definition streamTableData :: "(jsval \<Rightarrow> string) \<Rightarrow> (string \<Rightarrow> error + Cursor)
    \<Rightarrow> TableMetadata \<Rightarrow> nat \<Rightarrow> Streamed" where
  \<open>streamTableData stringify db meta chunkSize =
     (let query = ''SELECT * FROM "'' @ tbl_schema meta @ ''"."'' @ tbl_name meta @ ''"'' in
      case db query of
        Inl err \<Rightarrow> \<lparr> batches = [], failure = Some err, fetches = [] \<rparr>
      | Inr cursor \<Rightarrow> stream_loop stringify meta chunkSize cursor)\<close>

section \<open>The extractor interface\<close>

text \<open>An extractor gives, for a table, the batches it yields and the error that ended it.\<close>

type_synonym IDataExtractor = "TableMetadata \<Rightarrow> string list list \<times> error option"

definition PostgresExtractor :: "(jsval \<Rightarrow> string) \<Rightarrow> (string \<Rightarrow> error + Cursor)
    \<Rightarrow> IDataExtractor" where
  "PostgresExtractor stringify db meta =
     (let s = streamTableData stringify db meta 1000 in (batches s, failure s))"

section \<open>SQLWriter\<close>

text \<open>
  The steps of \<open>Orchestrator.run\<close>. Every chunk handed to the writer is recorded with the
  step that wrote it, so that the order of the output can be stated; the file's text is
  the concatenation of the chunks. The stream accepts every chunk: a write that the file
  system rejects is not modelled.
\<close>

datatype phase =
  P_Header | P_DatabaseSchema | P_Sequences | P_Tables | P_Data | P_Indexes | P_Constraints
| P_Footer


record SQLWriter =
  filePath :: string
  writeStream :: "(phase \<times> string) list option"

text \<open>A step of a run: it may throw, and it leaves the writer in a new state.\<close>

type_synonym step = "SQLWriter \<Rightarrow> error option \<times> SQLWriter"

definition writer_write :: "phase \<Rightarrow> string \<Rightarrow> step" where
  "writer_write ph content w =
     (case writeStream w of
        None \<Rightarrow> (Some (Error ''Writer not opened''), w)
      | Some chunks \<Rightarrow> (None, w\<lparr>writeStream := Some (chunks @ [(ph, content)])\<rparr>))"

definition throw :: "error \<Rightarrow> step" where
  "throw e w = (Some e, w)"

definition skip :: step where
  "skip w = (None, w)"

fun seq_steps :: "step list \<Rightarrow> step" where
  "seq_steps [] w = (None, w)"
| "seq_steps (s # ss) w =
     (case s w of (Some e, w') \<Rightarrow> (Some e, w') | (None, w') \<Rightarrow> seq_steps ss w')"

text \<open>\<open>now\<close> is the formatted date of the header.\<close>

definition writer_open :: "string \<Rightarrow> step" where
  \<open>writer_open now w =
     seq_steps
       [writer_write P_Header ''-- PERSISTOR PostgreSQL Backup\<newline>'',
        writer_write P_Header (''-- Date: '' @ now @ ''\<newline>''),
        writer_write P_Header ''-- --------------------------------------------------\<newline>\<newline>'',
        writer_write P_Header ''SET session_replication_role = replica;\<newline>\<newline>'']
       (w\<lparr>writeStream := Some []\<rparr>)\<close>

definition writer_close :: step where
  \<open>writer_close w =
     (if writeStream w \<noteq> None then
        seq_steps
          [writer_write P_Footer ''\<newline>SET session_replication_role = DEFAULT;\<newline>'',
           writer_write P_Footer ''-- Backup Completed.\<newline>''] w
      else (None, w))\<close>

section \<open>Orchestrator\<close>

record DatabaseConfig =
  database :: string
  cfg_schema :: "string option"
  tables :: "string list option"
  outputDir :: string
  dbType :: "DbType option"

text \<open>Step 1 of \<open>run\<close>: the metadata of every table, or the first error.\<close>

fun inspect_all :: "ISchemaInspector \<Rightarrow> string \<Rightarrow> string list \<Rightarrow> TableMetadata list
    \<Rightarrow> error + TableMetadata list" where
  "inspect_all inspector schema [] tablesMetadata = Inr tablesMetadata"
| "inspect_all inspector schema (name # names) tablesMetadata =
     (case getTableMetadata inspector schema name of
        Inl e \<Rightarrow> Inl e
      | Inr meta \<Rightarrow> inspect_all inspector schema names (tablesMetadata @ [meta]))"

definition write_if_nonempty :: "phase \<Rightarrow> string \<Rightarrow> step" where
  "write_if_nonempty ph sql = (if sql \<noteq> [] then writer_write ph sql else skip)"

text \<open>Step 4 for one table: a write per batch, then the blank line, unless the stream fails.\<close>

definition data_steps :: "string list list \<times> error option \<Rightarrow> step list" where
  \<open>data_steps streamed =
     map (\<lambda>chunk. writer_write P_Data (join ''\<newline>'' chunk @ ''\<newline>'')) (fst streamed)
       @ (case snd streamed of
            Some e \<Rightarrow> [throw e]
          | None \<Rightarrow> [writer_write P_Data ''\<newline>''])\<close>

text \<open>
  Steps 2 to 6 of \<open>run\<close> and the closing of the writer, for the inspected tables. The
  closing of the database connection, which follows and writes nothing, is left out.
\<close>

definition backup_steps :: "IDDLGenerator \<Rightarrow> IDataExtractor \<Rightarrow> TableMetadata list \<Rightarrow> step list" where
  "backup_steps ddlGen extractor tablesMetadata =
     map (\<lambda>meta. write_if_nonempty P_Sequences (generateSequences ddlGen meta)) tablesMetadata
     @ map (\<lambda>meta. writer_write P_Tables (generateTableCreate ddlGen meta)) tablesMetadata
     @ concat (map (\<lambda>meta. data_steps (extractor meta)) tablesMetadata)
     @ map (\<lambda>meta. write_if_nonempty P_Indexes (generateIndexes ddlGen meta)) tablesMetadata
     @ map (\<lambda>meta. write_if_nonempty P_Constraints (generateConstraints ddlGen meta)) tablesMetadata
     @ [writer_close]"

definition run :: "DatabaseConfig \<Rightarrow> ISchemaInspector \<Rightarrow> IDataExtractor \<Rightarrow> string \<Rightarrow> step" where
  \<open>run config inspector extractor now w =
     (let ddlGen = createGenerator (case dbType config of None \<Rightarrow> Postgres | Some t \<Rightarrow> t);
          schema = (if truthy_str (cfg_schema config) then the (cfg_schema config) else ''public'')
      in
      case seq_steps
             [writer_open now,
              writer_write P_DatabaseSchema (generateDatabaseCreate ddlGen (database config)),
              writer_write P_DatabaseSchema (generateSchemaCreate ddlGen schema)] w of
        (Some e, w1) \<Rightarrow> (Some e, w1)
      | (None, w1) \<Rightarrow>
         (case listTables inspector schema (tables config) of
            Inl e \<Rightarrow> (Some e, w1)
          | Inr tableNames \<Rightarrow>
             (case inspect_all inspector schema tableNames [] of
                Inl e \<Rightarrow> (Some e, w1)
              | Inr tablesMetadata \<Rightarrow>
                  seq_steps (backup_steps ddlGen extractor tablesMetadata) w1)))\<close>

section \<open>SchemaComparator\<close>

text \<open>
  \<open>new Map(entries)\<close> keeps the last entry of a repeated key; \<open>get\<close> is the lookup.
\<close>

definition Map_of_entries :: "('k \<times> 'v) list \<Rightarrow> 'k \<Rightarrow> 'v option" where
  "Map_of_entries entries = map_of (rev entries)"

fun type_text :: "ConstraintType \<Rightarrow> string" where
  "type_text PRIMARY_KEY = ''PRIMARY KEY''"
| "type_text FOREIGN_KEY = ''FOREIGN KEY''"
| "type_text UNIQUE = ''UNIQUE''"
| "type_text CHECK = ''CHECK''"

definition new_diff :: "DiffType \<Rightarrow> string option \<Rightarrow> SchemaDiff" where
  "new_diff ty tbl =
     \<lparr> diff_type = ty, table = tbl, column = None, expected = None, actual = None,
       details = None, diff_fix = None \<rparr>"

text \<open>The diffs one iteration of the loop of \<open>compareColumns\<close> pushes.\<close>

definition column_diffs :: "IDDLGenerator \<Rightarrow> TableMetadata \<Rightarrow> (string \<Rightarrow> TableColumn option)
    \<Rightarrow> TableColumn \<Rightarrow> SchemaDiff list" where
  \<open>column_diffs generator source targetCols sCol =
     (case targetCols (col_name sCol) of
        None \<Rightarrow>
          [(new_diff MISSING_COLUMN (Some (tbl_name source)))
             \<lparr> column := Some (col_name sCol),
               details := Some (''Column "'' @ col_name sCol @ ''" is missing in target table.''),
               diff_fix := Some (generateAddColumn generator (tbl_name source) (tbl_schema source) sCol) \<rparr>]
      | Some tCol \<Rightarrow>
          (if udtName sCol \<noteq> udtName tCol then
             [(new_diff TYPE_MISMATCH (Some (tbl_name source)))
                \<lparr> column := Some (col_name sCol),
                  expected := Some (dataType sCol),
                  actual := Some (dataType tCol),
                  details := Some (''Column "'' @ col_name sCol @ ''" type mismatch. Source: ''
                     @ dataType sCol @ '' ('' @ udtName sCol @ ''), Target: '' @ dataType tCol
                     @ '' ('' @ udtName tCol @ '')''),
                  diff_fix := Some (generateAlterColumnType generator (tbl_name source)
                     (tbl_schema source) sCol) \<rparr>]
           else [])
          @ (if isNullable sCol \<noteq> isNullable tCol then
               [(new_diff NULLABILITY_MISMATCH (Some (tbl_name source)))
                  \<lparr> column := Some (col_name sCol),
                    expected := Some (if isNullable sCol then ''NULL'' else ''NOT NULL''),
                    actual := Some (if isNullable tCol then ''NULL'' else ''NOT NULL''),
                    diff_fix := Some (generateAlterColumnNullability generator (tbl_name source)
                       (tbl_schema source) sCol) \<rparr>]
             else [])
          @ (if columnDefault sCol \<noteq> columnDefault tCol then
               [(new_diff DEFAULT_MISMATCH (Some (tbl_name source)))
                  \<lparr> column := Some (col_name sCol),
                    expected := Some (if truthy_str (columnDefault sCol)
                                      then the (columnDefault sCol) else ''NULL''),
                    actual := Some (if truthy_str (columnDefault tCol)
                                    then the (columnDefault tCol) else ''NULL''),
                    diff_fix := Some (generateAlterColumnDefault generator (tbl_name source)
                       (tbl_schema source) sCol) \<rparr>]
             else []))\<close>

definition compareColumns :: "IDDLGenerator \<Rightarrow> TableMetadata \<Rightarrow> TableMetadata
    \<Rightarrow> SchemaDiff list \<Rightarrow> SchemaDiff list" where
  "compareColumns generator source target ds =
     (let targetCols = Map_of_entries (map (\<lambda>c. (col_name c, c)) (columns target))
      in foldl (\<lambda>ds sCol. ds @ column_diffs generator source targetCols sCol)
           ds (columns source))"

definition constraint_diff :: "IDDLGenerator \<Rightarrow> TableMetadata \<Rightarrow> TableConstraint \<Rightarrow> SchemaDiff" where
  \<open>constraint_diff generator source sConstraint =
     (new_diff MISSING_CONSTRAINT (Some (tbl_name source)))
       \<lparr> column := Some (con_name sConstraint),
         details := Some (''Constraint "'' @ con_name sConstraint @ ''" (''
            @ type_text (con_type sConstraint) @ '') is missing in target.''),
         diff_fix := Some (generateConstraintFix generator (tbl_name source) (tbl_schema source)
            sConstraint) \<rparr>\<close>

definition compareConstraints :: "IDDLGenerator \<Rightarrow> TableMetadata \<Rightarrow> TableMetadata
    \<Rightarrow> SchemaDiff list \<Rightarrow> SchemaDiff list" where
  "compareConstraints generator source target ds =
     (let targetConstraints = set (map con_name (constraints target))
      in foldl (\<lambda>ds sConstraint.
                  if con_name sConstraint \<notin> targetConstraints
                  then ds @ [constraint_diff generator source sConstraint] else ds)
           ds (constraints source))"

definition index_diff :: "TableMetadata \<Rightarrow> TableIndex \<Rightarrow> SchemaDiff" where
  \<open>index_diff source sIndex =
     (new_diff MISSING_INDEX (Some (tbl_name source)))
       \<lparr> column := Some (idx_name sIndex),
         details := Some (''Index "'' @ idx_name sIndex @ ''" is missing in target.''),
         diff_fix := Some (idx_definition sIndex @ '';'') \<rparr>\<close>

definition compareIndexes :: "TableMetadata \<Rightarrow> TableMetadata \<Rightarrow> SchemaDiff list
    \<Rightarrow> SchemaDiff list" where
  "compareIndexes source target ds =
     (let targetIndexes = set (map idx_name (indexes target))
      in foldl (\<lambda>ds sIndex.
                  if idx_name sIndex \<notin> targetIndexes
                  then ds @ [index_diff source sIndex] else ds)
           ds (indexes source))"

definition function_diffs :: "(string \<Rightarrow> DatabaseObject option) \<Rightarrow> DatabaseObject
    \<Rightarrow> SchemaDiff list" where
  \<open>function_diffs targetFuncMap sFunc =
     (case targetFuncMap (obj_name sFunc) of
        None \<Rightarrow>
          [(new_diff MISSING_FUNCTION (Some ''-''))
             \<lparr> column := Some (obj_name sFunc),
               details := Some (''Function "'' @ obj_name sFunc @ ''" is missing in target.''),
               diff_fix := Some (obj_definition sFunc @ '';'') \<rparr>]
      | Some tFunc \<Rightarrow>
          if obj_definition sFunc \<noteq> obj_definition tFunc then
            [(new_diff FUNCTION_MISMATCH (Some ''-''))
               \<lparr> column := Some (obj_name sFunc),
                 details := Some (''Function "'' @ obj_name sFunc @ ''" definition mismatch.''),
                 diff_fix := Some (obj_definition sFunc @ '';'') \<rparr>]
          else [])\<close>

definition compareFunctions :: "ISchemaInspector \<Rightarrow> ISchemaInspector \<Rightarrow> string \<Rightarrow> string
    \<Rightarrow> SchemaDiff list \<Rightarrow> error + SchemaDiff list" where
  "compareFunctions sourceInspector targetInspector sourceSchema targetSchema ds =
     (case listFunctions sourceInspector sourceSchema of
        Inl e \<Rightarrow> Inl e
      | Inr sourceFunctions \<Rightarrow>
         (case listFunctions targetInspector targetSchema of
            Inl e \<Rightarrow> Inl e
          | Inr targetFunctions \<Rightarrow>
              (let targetFuncMap = Map_of_entries (map (\<lambda>f. (obj_name f, f)) targetFunctions)
               in Inr (foldl (\<lambda>ds sFunc. ds @ function_diffs targetFuncMap sFunc)
                         ds sourceFunctions))))"

definition trigger_key :: "DatabaseObject \<Rightarrow> string" where
  "trigger_key t = render_opt (tableName t) @ ''.'' @ obj_name t"

definition trigger_diffs :: "IDDLGenerator \<Rightarrow> (string \<Rightarrow> DatabaseObject option) \<Rightarrow> DatabaseObject
    \<Rightarrow> SchemaDiff list" where
  \<open>trigger_diffs generator targetTrigMap sTrig =
     (case targetTrigMap (trigger_key sTrig) of
        None \<Rightarrow>
          [(new_diff MISSING_TRIGGER (tableName sTrig))
             \<lparr> column := Some (obj_name sTrig),
               details := Some (''Trigger "'' @ obj_name sTrig @ ''" on table "''
                  @ render_opt (tableName sTrig) @ ''" is missing in target.''),
               diff_fix := Some (obj_definition sTrig @ '';'') \<rparr>]
      | Some tTrig \<Rightarrow>
          if obj_definition sTrig \<noteq> obj_definition tTrig then
            (let dropTrigger = generateDropTrigger generator (render_opt (tableName sTrig))
                                 (obj_schema sTrig) (obj_name sTrig)
             in [(new_diff TRIGGER_MISMATCH (tableName sTrig))
                   \<lparr> column := Some (obj_name sTrig),
                     details := Some (''Trigger "'' @ obj_name sTrig @ ''" on table "''
                        @ render_opt (tableName sTrig) @ ''" definition mismatch.''),
                     diff_fix := Some (dropTrigger @ ''\<newline>'' @ obj_definition sTrig @ '';'') \<rparr>])
          else [])\<close>

definition compareTriggers :: "IDDLGenerator \<Rightarrow> ISchemaInspector \<Rightarrow> ISchemaInspector \<Rightarrow> string
    \<Rightarrow> string \<Rightarrow> SchemaDiff list \<Rightarrow> error + SchemaDiff list" where
  "compareTriggers generator sourceInspector targetInspector sourceSchema targetSchema ds =
     (case listTriggers sourceInspector sourceSchema of
        Inl e \<Rightarrow> Inl e
      | Inr sourceTriggers \<Rightarrow>
         (case listTriggers targetInspector targetSchema of
            Inl e \<Rightarrow> Inl e
          | Inr targetTriggers \<Rightarrow>
              (let targetTrigMap = Map_of_entries (map (\<lambda>t. (trigger_key t, t)) targetTriggers)
               in Inr (foldl (\<lambda>ds sTrig. ds @ trigger_diffs generator targetTrigMap sTrig)
                         ds sourceTriggers))))"

definition missing_table_diff :: "IDDLGenerator \<Rightarrow> string \<Rightarrow> TableMetadata \<Rightarrow> SchemaDiff" where
  \<open>missing_table_diff generator tname sourceMeta =
     (new_diff MISSING_TABLE (Some tname))
       \<lparr> details := Some (''Table "'' @ tname
            @ ''" exists in source but is missing in target.''),
         diff_fix := Some (generateTableCreate generator sourceMeta) \<rparr>\<close>

text \<open>The loop of \<open>compare\<close> over the source tables.\<close>

fun compare_tables :: "IDDLGenerator \<Rightarrow> ISchemaInspector \<Rightarrow> ISchemaInspector \<Rightarrow> string \<Rightarrow> string
    \<Rightarrow> string list \<Rightarrow> string list \<Rightarrow> SchemaDiff list \<Rightarrow> error + SchemaDiff list" where
  "compare_tables generator sourceInspector targetInspector sourceSchema targetSchema
      targetTables [] ds = Inr ds"
| "compare_tables generator sourceInspector targetInspector sourceSchema targetSchema
      targetTables (tname # sourceTables) ds =
     (if tname \<notin> set targetTables then
        (case getTableMetadata sourceInspector sourceSchema tname of
           Inl e \<Rightarrow> Inl e
         | Inr sourceMeta \<Rightarrow>
             compare_tables generator sourceInspector targetInspector sourceSchema targetSchema
               targetTables sourceTables
               (ds @ [missing_table_diff generator tname sourceMeta]))
      else
        (case getTableMetadata sourceInspector sourceSchema tname of
           Inl e \<Rightarrow> Inl e
         | Inr sourceMeta \<Rightarrow>
            (case getTableMetadata targetInspector targetSchema tname of
               Inl e \<Rightarrow> Inl e
             | Inr targetMeta \<Rightarrow>
                 compare_tables generator sourceInspector targetInspector sourceSchema
                   targetSchema targetTables sourceTables
                   (compareIndexes sourceMeta targetMeta
                      (compareConstraints generator sourceMeta targetMeta
                         (compareColumns generator sourceMeta targetMeta ds))))))"

definition compare :: "DbType \<Rightarrow> ISchemaInspector \<Rightarrow> ISchemaInspector \<Rightarrow> string \<Rightarrow> string
    \<Rightarrow> error + ComparisonResult" where
  "compare dbt sourceInspector targetInspector sourceSchema targetSchema =
     (let generator = createGenerator dbt in
      case listTables sourceInspector sourceSchema None of
        Inl e \<Rightarrow> Inl e
      | Inr sourceTables \<Rightarrow>
         (case listTables targetInspector targetSchema None of
            Inl e \<Rightarrow> Inl e
          | Inr targetTables \<Rightarrow>
             (case compare_tables generator sourceInspector targetInspector sourceSchema
                     targetSchema targetTables sourceTables [] of
                Inl e \<Rightarrow> Inl e
              | Inr ds1 \<Rightarrow>
                 (case compareFunctions sourceInspector targetInspector sourceSchema
                         targetSchema ds1 of
                    Inl e \<Rightarrow> Inl e
                  | Inr ds2 \<Rightarrow>
                     (case compareTriggers generator sourceInspector targetInspector
                             sourceSchema targetSchema ds2 of
                        Inl e \<Rightarrow> Inl e
                      | Inr ds3 \<Rightarrow>
                          Inr \<lparr> sourceDb = sourceSchema, targetDb = targetSchema,
                                diffs = ds3 \<rparr>)))))"

section \<open>Notions used to state the properties\<close>

text \<open>The metadata of a table with only the constraints of the given kinds kept.\<close>

definition keep_kinds :: "ConstraintType list \<Rightarrow> TableMetadata \<Rightarrow> TableMetadata" where
  "keep_kinds kinds meta =
     meta\<lparr>constraints := filter (\<lambda>c. con_type c \<in> set kinds) (constraints meta)\<rparr>"

text \<open>An inspector that reports every table without its CHECK constraints.\<close>

definition strip_checks :: "ISchemaInspector \<Rightarrow> ISchemaInspector" where
  "strip_checks inspector =
     inspector\<lparr>getTableMetadata := \<lambda>schema name.
       map_sum id (keep_kinds [PRIMARY_KEY, FOREIGN_KEY, UNIQUE])
         (getTableMetadata inspector schema name)\<rparr>"


text \<open>The Map of \<open>compareColumns\<close>: the target column a name is looked up to.\<close>

definition target_column :: "TableMetadata \<Rightarrow> string \<Rightarrow> TableColumn option" where
  "target_column target = Map_of_entries (map (\<lambda>c. (col_name c, c)) (columns target))"

text \<open>
  The aggregation of the constraint rows in the spec's words: a list without its repeated
  elements, in first-seen order; the first row of every constraint name; the rows of a
  name; and the constraint a name's rows make.
\<close>

fun dedup_first :: "'a list \<Rightarrow> 'a list" where
  "dedup_first [] = []"
| "dedup_first (x # xs) = x # dedup_first (filter (\<lambda>y. y \<noteq> x) xs)"

fun first_rows :: "ConstraintRow list \<Rightarrow> ConstraintRow list" where
  "first_rows [] = []"
| "first_rows (r # rs) = r # first_rows (filter (\<lambda>r'. row_name r' \<noteq> row_name r) rs)"

definition rows_of :: "ConstraintRow list \<Rightarrow> string \<Rightarrow> ConstraintRow list" where
  "rows_of rows n = filter (\<lambda>r. row_name r = n) rows"

definition aggregate :: "ConstraintRow \<Rightarrow> ConstraintRow list \<Rightarrow> TableConstraint" where
  "aggregate first rs =
     \<lparr> con_name = row_name first, con_type = row_type first,
       con_columns = dedup_first (map column_name rs),
       foreignTable = (case foreign_table first of
                         None \<Rightarrow> None | Some t \<Rightarrow> if t = [] then None else Some t),
       foreignColumns =
         Some (dedup_first (concat (map (\<lambda>r. case foreign_column r of
                                               None \<Rightarrow> []
                                             | Some c \<Rightarrow> if c = [] then [] else [c]) rs))),
       con_definition = None \<rparr>"

definition constraints_spec :: "ConstraintRow list \<Rightarrow> TableConstraint list" where
  "constraints_spec rows =
     map (\<lambda>first. aggregate first (rows_of rows (row_name first))) (first_rows rows)"

text \<open>The association list that the loop of \<open>getConstraints\<close> has built after \<open>rows\<close>.\<close>

definition spec_map :: "ConstraintRow list \<Rightarrow> constraintsMap" where
  "spec_map rows =
     map (\<lambda>first. (row_name first, aggregate first (rows_of rows (row_name first))))
       (first_rows rows)"

text \<open>
  A list cut into pages of \<open>n\<close> elements, the last one shorter when the length is no
  multiple of \<open>n\<close>; and the sizes of the pages of a list of a given length.
\<close>

function chunks :: "nat \<Rightarrow> 'a list \<Rightarrow> 'a list list" where
  "chunks n xs = (if xs = [] \<or> n = 0 then [] else take n xs # chunks n (drop n xs))"
  by pat_completeness auto
termination
  by (relation "measure (\<lambda>(n, xs). length xs)") auto

declare chunks.simps [simp del]

function chunk_sizes :: "nat \<Rightarrow> nat \<Rightarrow> nat list" where
  "chunk_sizes p n = (if n = 0 \<or> p = 0 then [] else min p n # chunk_sizes p (n - p))"
  by pat_completeness auto
termination
  by (relation "measure (\<lambda>(p, n). n)") auto

declare chunk_sizes.simps [simp del]






definition body_ranks :: "nat \<Rightarrow> nat \<Rightarrow> nat list" where
  "body_ranks n d =
     replicate n 2 @ replicate n 3 @ replicate d 4 @ replicate n 5 @ replicate n 6 @ [7]"







section \<open>Example inputs\<close>

definition seq57 :: TableSequence where
  "seq57 = \<lparr> seq_name = ''orders_id_seq'', seq_dataType = ''bigint'', startValue = ''1'',
     minValue = ''1'', maxValue = ''9223372036854775807'', incrementBy = ''1'', cycle = False,
     cacheSize = ''1'', lastValue = ''57'' \<rparr>"


definition check_con :: TableConstraint where
  "check_con = \<lparr> con_name = ''orders_total_check'', con_type = CHECK, con_columns = [''total''],
     foreignTable = None, foreignColumns = Some [], con_definition = None \<rparr>"

definition uq_con :: TableConstraint where
  "uq_con = \<lparr> con_name = ''orders_code_key'', con_type = UNIQUE, con_columns = [''code''],
     foreignTable = None, foreignColumns = Some [], con_definition = None \<rparr>"

definition orders_with :: "TableConstraint list \<Rightarrow> TableMetadata" where
  "orders_with cs = \<lparr> tbl_name = ''orders'', tbl_schema = ''public'', columns = [],
     constraints = cs, indexes = [], sequences = [] \<rparr>"

definition title_column :: "string \<Rightarrow> string \<Rightarrow> int option \<Rightarrow> TableColumn" where
  "title_column display udt len =
     \<lparr> col_name = ''title'', dataType = display, isNullable = True, columnDefault = None,
       characterMaximumLength = len, numericPrecision = None, numericScale = None,
       udtName = udt \<rparr>"

definition books :: "TableColumn list \<Rightarrow> TableMetadata" where
  "books cols = \<lparr> tbl_name = ''books'', tbl_schema = ''public'', columns = cols,
     constraints = [], indexes = [], sequences = [] \<rparr>"

definition fk_row :: "string \<Rightarrow> string \<Rightarrow> ConstraintRow" where
  "fk_row col fcol =
     \<lparr> row_name = ''orders_customer_fk'', row_type = FOREIGN_KEY, column_name = col,
       foreign_table = Some ''customers'', foreign_column = Some fcol \<rparr>"

definition pk_row :: ConstraintRow where
  "pk_row =
     \<lparr> row_name = ''orders_pkey'', row_type = PRIMARY_KEY, column_name = ''id'',
       foreign_table = Some ''orders'', foreign_column = Some ''id'' \<rparr>"

definition three_rows :: "row list" where
  "three_rows = [[(''id'', JNum 1)], [(''id'', JNum 2)], [(''id'', JNum 3)]]"

definition id_table :: TableMetadata where
  "id_table = \<lparr> tbl_name = ''t'', tbl_schema = ''public'',
     columns = [\<lparr> col_name = ''id'', dataType = ''integer'', isNullable = False,
                  columnDefault = None, characterMaximumLength = None,
                  numericPrecision = Some 32, numericScale = Some 0, udtName = ''int4'' \<rparr>],
     constraints = [], indexes = [], sequences = [] \<rparr>"

definition orders_table :: TableMetadata where
  \<open>orders_table =
     \<lparr> tbl_name = ''orders'', tbl_schema = ''public'',
       columns =
         [\<lparr> col_name = ''id'', dataType = ''integer'', isNullable = False,
             columnDefault = Some (''nextval('' @ [CHR 0x27] @ ''orders_id_seq'' @ [CHR 0x27]
                                     @ ''::regclass)''),
             characterMaximumLength = None, numericPrecision = Some 32, numericScale = Some 0,
             udtName = ''int4'' \<rparr>,
          \<lparr> col_name = ''total'', dataType = ''numeric'', isNullable = False,
             columnDefault = Some ''0'', characterMaximumLength = None,
             numericPrecision = Some 10, numericScale = Some 2, udtName = ''numeric'' \<rparr>],
       constraints =
         [\<lparr> con_name = ''orders_pkey'', con_type = PRIMARY_KEY, con_columns = [''id''],
             foreignTable = Some ''orders'', foreignColumns = Some [''id''],
             con_definition = None \<rparr>,
          uq_con],
       indexes = [\<lparr> idx_name = ''orders_total_idx'',
                    idx_definition = ''CREATE INDEX orders_total_idx ON public.orders USING btree (total)'' \<rparr>],
       sequences = [seq57] \<rparr>\<close>

definition shop_inspector :: ISchemaInspector where
  "shop_inspector =
     \<lparr> listTables = (\<lambda>schema targetTables. Inr [''orders'']),
       getTableMetadata = (\<lambda>schema name.
          if name = ''orders'' then Inr orders_table else Inl (Error ''no such table'')),
       listFunctions = (\<lambda>schema. Inr []),
       listTriggers = (\<lambda>schema. Inr []) \<rparr>"




definition area_functions :: "DatabaseObject list" where
  "area_functions =
     [\<lparr> obj_name = ''area'', obj_schema = ''public'',
         obj_definition = ''CREATE FUNCTION area(integer) RETURNS integer ...'', tableName = None \<rparr>,
      \<lparr> obj_name = ''area'', obj_schema = ''public'',
         obj_definition = ''CREATE FUNCTION area(numeric) RETURNS numeric ...'', tableName = None \<rparr>]"

definition functions_inspector :: "DatabaseObject list \<Rightarrow> ISchemaInspector" where
  "functions_inspector fs =
     \<lparr> listTables = (\<lambda>schema targetTables. Inr []),
       getTableMetadata = (\<lambda>schema name. Inl (Error ''no such table'')),
       listFunctions = (\<lambda>schema. Inr fs),
       listTriggers = (\<lambda>schema. Inr []) \<rparr>"



section \<open>Auxiliary facts\<close>

lemma foldl_append_concat: "foldl (\<lambda>acc x. acc @ f x) a xs = a @ concat (map f xs)"
  by (induction xs arbitrary: a) auto

lemma foldl_cond_append:
  "foldl (\<lambda>acc x. if P x then acc @ [f x] else acc) a xs = a @ map f (filter P xs)"
  by (induction xs arbitrary: a) auto

lemma starts_with_iff: "starts_with p s \<longleftrightarrow> (\<exists>post. s = p @ post)"
  by (induction p s rule: starts_with.induct) auto

lemma str_includes_iff: "str_includes s p \<longleftrightarrow> (\<exists>pre post. s = pre @ p @ post)"
proof (induction s)
  case Nil
  show ?case by simp
next
  case (Cons c cs)
  show ?case
  proof
    assume "str_includes (c # cs) p"
    then consider "starts_with p (c # cs)" | "str_includes cs p" by auto
    then show "\<exists>pre post. c # cs = pre @ p @ post"
    proof cases
      case 1
      then obtain post where "c # cs = p @ post" by (auto simp: starts_with_iff)
      then have "c # cs = [] @ p @ post" by simp
      then show ?thesis by blast
    next
      case 2
      with Cons obtain pre post where "cs = pre @ p @ post" by blast
      then have "c # cs = (c # pre) @ p @ post" by simp
      then show ?thesis by blast
    qed
  next
    assume "\<exists>pre post. c # cs = pre @ p @ post"
    then obtain pre post where e: "c # cs = pre @ p @ post" by blast
    show "str_includes (c # cs) p"
    proof (cases pre)
      case Nil
      with e have "starts_with p (c # cs)" by (auto simp: starts_with_iff)
      then show ?thesis by simp
    next
      case (Cons a pre')
      with e have "cs = pre' @ p @ post" by simp
      with Cons.IH have "str_includes cs p" by blast
      then show ?thesis by simp
    qed
  qed
qed

lemma str_includes_mid: "str_includes (a @ p @ b) p"
  by (auto simp: str_includes_iff)

lemma str_includes_skip: "str_includes b p \<Longrightarrow> str_includes (a @ b) p"
proof -
  assume "str_includes b p"
  then obtain pre post where "b = pre @ p @ post" by (auto simp: str_includes_iff)
  then have "a @ b = (a @ pre) @ p @ post" by simp
  then show ?thesis by (simp only: str_includes_mid)
qed

text \<open>Facts that let the simplifier compute \<open>char_of\<close> on a numeral.\<close>

lemmas char_eval = char_of_def bit_Suc_0_iff

section \<open>CHECK constraints and the backup output\<close>

lemma keep_kinds_fields:
  "tbl_name (keep_kinds K meta) = tbl_name meta"
  "tbl_schema (keep_kinds K meta) = tbl_schema meta"
  "columns (keep_kinds K meta) = columns meta"
  "indexes (keep_kinds K meta) = indexes meta"
  "sequences (keep_kinds K meta) = sequences meta"
  by (simp_all add: keep_kinds_def)

lemma keep_kinds_filter:
  assumes "k \<in> set K"
  shows "filter (\<lambda>c. con_type c = k) (constraints (keep_kinds K meta)) =
         filter (\<lambda>c. con_type c = k) (constraints meta)"
proof -
  have "filter (\<lambda>c. con_type c = k) (filter (\<lambda>c. con_type c \<in> set K) cs) =
        filter (\<lambda>c. con_type c = k) cs" for cs :: "TableConstraint list"
    using assms by (induction cs) auto
  then show ?thesis by (simp add: keep_kinds_def del: filter_filter)
qed

lemma keep_kinds_stmts:
  "pg_pk_stmt (keep_kinds K meta) = pg_pk_stmt meta"
  "pg_fk_stmt (keep_kinds K meta) = pg_fk_stmt meta"
  "pg_unique_stmt (keep_kinds K meta) = pg_unique_stmt meta"
  "ora_pk_stmt (keep_kinds K meta) = ora_pk_stmt meta"
  "ora_fk_stmt (keep_kinds K meta) = ora_fk_stmt meta"
  "ora_unique_stmt (keep_kinds K meta) = ora_unique_stmt meta"
  "pg_create_sequence (keep_kinds K meta) = pg_create_sequence meta"
  "pg_setval (keep_kinds K meta) = pg_setval meta"
  by (simp_all add: fun_eq_iff pg_pk_stmt_def pg_fk_stmt_def pg_unique_stmt_def ora_pk_stmt_def
      ora_fk_stmt_def ora_unique_stmt_def pg_create_sequence_def pg_setval_def keep_kinds_fields)

lemma pg_generateTableCreate_keep:
  "PRIMARY_KEY \<in> set K \<Longrightarrow> pg_generateTableCreate (keep_kinds K meta) = pg_generateTableCreate meta"
  unfolding pg_generateTableCreate_def
  by (simp only: keep_kinds_fields keep_kinds_stmts keep_kinds_filter)

lemma ora_generateTableCreate_keep:
  "PRIMARY_KEY \<in> set K \<Longrightarrow> ora_generateTableCreate (keep_kinds K meta) = ora_generateTableCreate meta"
  unfolding ora_generateTableCreate_def
  by (simp only: keep_kinds_fields keep_kinds_stmts keep_kinds_filter)

lemma pg_generateConstraints_keep:
  "FOREIGN_KEY \<in> set K \<Longrightarrow> UNIQUE \<in> set K \<Longrightarrow>
     pg_generateConstraints (keep_kinds K meta) = pg_generateConstraints meta"
  unfolding pg_generateConstraints_def
  by (simp only: keep_kinds_fields keep_kinds_stmts keep_kinds_filter)

lemma ora_generateConstraints_keep:
  "FOREIGN_KEY \<in> set K \<Longrightarrow> UNIQUE \<in> set K \<Longrightarrow>
     ora_generateConstraints (keep_kinds K meta) = ora_generateConstraints meta"
  unfolding ora_generateConstraints_def
  by (simp only: keep_kinds_fields keep_kinds_stmts keep_kinds_filter)

lemma pg_generateSequences_keep:
  "pg_generateSequences (keep_kinds K meta) = pg_generateSequences meta"
  unfolding pg_generateSequences_def by (simp only: keep_kinds_fields keep_kinds_stmts)

lemma generateSequences_keep:
  "generateSequences (createGenerator dbt) (keep_kinds K meta) =
   generateSequences (createGenerator dbt) meta"
  by (cases dbt)
     (simp_all add: PostgresDDLGenerator_def OracleDDLGenerator_def pg_generateSequences_keep
        ora_generateSequences_def)

lemma generateIndexes_keep:
  "generateIndexes (createGenerator dbt) (keep_kinds K meta) =
   generateIndexes (createGenerator dbt) meta"
  by (cases dbt)
     (simp_all add: PostgresDDLGenerator_def OracleDDLGenerator_def pg_generateIndexes_def
        ora_generateIndexes_def keep_kinds_fields)

lemma generateTableCreate_keep:
  "PRIMARY_KEY \<in> set K \<Longrightarrow>
     generateTableCreate (createGenerator dbt) (keep_kinds K meta) =
     generateTableCreate (createGenerator dbt) meta"
  by (cases dbt)
     (simp_all add: PostgresDDLGenerator_def OracleDDLGenerator_def pg_generateTableCreate_keep
        ora_generateTableCreate_keep)

lemma generateConstraints_keep:
  "FOREIGN_KEY \<in> set K \<Longrightarrow> UNIQUE \<in> set K \<Longrightarrow>
     generateConstraints (createGenerator dbt) (keep_kinds K meta) =
     generateConstraints (createGenerator dbt) meta"
  by (cases dbt)
     (simp_all add: PostgresDDLGenerator_def OracleDDLGenerator_def pg_generateConstraints_keep
        ora_generateConstraints_keep)

lemma formatInsert_keep: "formatInsert S (keep_kinds K meta) r = formatInsert S meta r"
  unfolding formatInsert_def by (simp only: keep_kinds_fields)

lemma stream_loop_keep:
  "stream_loop S (keep_kinds K meta) n c = stream_loop S meta n c"
proof (induction "length (remaining c)" arbitrary: c rule: less_induct)
  case less
  show ?case
  proof (cases "cursor_read n c")
    case (Inl e)
    then show ?thesis by (subst stream_loop.simps, subst (2) stream_loop.simps) simp
  next
    case (Inr p)
    obtain rows c' where p: "p = (rows, c')" by (cases p)
    show ?thesis
    proof (cases "rows = []")
      case True
      with Inr p show ?thesis by (subst stream_loop.simps, subst (2) stream_loop.simps) simp
    next
      case False
      from Inr p have rows: "rows = take n (remaining c)"
        and rem: "remaining c' = drop n (remaining c)"
        by (auto simp: cursor_read_def split: option.splits prod.splits nat.splits)
      from False rows have "0 < n" "remaining c \<noteq> []" by (cases n; auto)+
      with rem have "length (remaining c') < length (remaining c)" by simp
      then have IH: "stream_loop S (keep_kinds K meta) n c' = stream_loop S meta n c'"
        by (rule less)
      from Inr p False IH show ?thesis
        by (subst stream_loop.simps, subst (2) stream_loop.simps)
           (simp add: formatInsert_keep cong: map_cong)
    qed
  qed
qed

lemma PostgresExtractor_keep:
  "PostgresExtractor S db (keep_kinds K meta) = PostgresExtractor S db meta"
  by (simp add: PostgresExtractor_def streamTableData_def stream_loop_keep keep_kinds_fields
      cong: sum.case_cong)

lemma inspect_all_strip_checks:
  "inspect_all (strip_checks insp) schema names
       (map (keep_kinds [PRIMARY_KEY, FOREIGN_KEY, UNIQUE]) acc) =
     map_sum id (map (keep_kinds [PRIMARY_KEY, FOREIGN_KEY, UNIQUE]))
       (inspect_all insp schema names acc)"
proof (induction names arbitrary: acc)
  case Nil
  show ?case by simp
next
  case (Cons n ns)
  show ?case
  proof (cases "getTableMetadata insp schema n")
    case (Inl e)
    then show ?thesis by (simp add: strip_checks_def)
  next
    case (Inr m)
    have "inspect_all (strip_checks insp) schema ns
            (map (keep_kinds [PRIMARY_KEY, FOREIGN_KEY, UNIQUE]) (acc @ [m])) =
          map_sum id (map (keep_kinds [PRIMARY_KEY, FOREIGN_KEY, UNIQUE]))
            (inspect_all insp schema ns (acc @ [m]))"
      by (rule Cons.IH)
    with Inr show ?thesis by (simp add: strip_checks_def id_def)
  qed
qed

lemma backup_steps_keep:
  "backup_steps (createGenerator dbt) (PostgresExtractor S db)
       (map (keep_kinds [PRIMARY_KEY, FOREIGN_KEY, UNIQUE]) ms) =
   backup_steps (createGenerator dbt) (PostgresExtractor S db) ms"
  by (simp add: backup_steps_def comp_def generateSequences_keep generateIndexes_keep
      generateTableCreate_keep generateConstraints_keep PostgresExtractor_keep)

lemma run_strip_checks:
  "run config (strip_checks inspector) (PostgresExtractor S db) now w =
   run config inspector (PostgresExtractor S db) now w"
proof -
  have ia: "inspect_all (strip_checks inspector) schema names [] =
     map_sum id (map (keep_kinds [PRIMARY_KEY, FOREIGN_KEY, UNIQUE]))
       (inspect_all inspector schema names [])" for schema names
    using inspect_all_strip_checks[of inspector schema names "[]"] by simp
  have lt: "listTables (strip_checks inspector) = listTables inspector"
    by (simp add: strip_checks_def)
  have inner:
    "(case map_sum id (map (keep_kinds [PRIMARY_KEY, FOREIGN_KEY, UNIQUE])) r of
        Inl e \<Rightarrow> (Some e, w1)
      | Inr ms \<Rightarrow> seq_steps (backup_steps (createGenerator dbt) (PostgresExtractor S db) ms) w1)
     = (case r of
          Inl e \<Rightarrow> (Some e, w1)
        | Inr ms \<Rightarrow> seq_steps (backup_steps (createGenerator dbt) (PostgresExtractor S db) ms) w1)"
    for r dbt w1
    by (cases r) (simp_all add: backup_steps_keep)
  show ?thesis
    unfolding run_def Let_def lt ia inner ..
qed

text \<open>
  C10. The backup never emits a CHECK constraint. For either engine's generator,
  \<open>generateTableCreate\<close> gives the same text when every constraint that is not a PRIMARY
  KEY is removed from the metadata, and \<open>generateConstraints\<close> gives the same text when
  every constraint that is neither a FOREIGN KEY nor UNIQUE is removed; and a whole backup
  run over an inspector that reports no CHECK constraint writes exactly what the run over
  the original inspector writes, with the same outcome.
\<close>

theorem check_constraints_never_emitted:
  "generateTableCreate (createGenerator dbt) (keep_kinds [PRIMARY_KEY] meta) =
     generateTableCreate (createGenerator dbt) meta
   \<and> generateConstraints (createGenerator dbt) (keep_kinds [FOREIGN_KEY, UNIQUE] meta) =
     generateConstraints (createGenerator dbt) meta
   \<and> run config (strip_checks inspector) (PostgresExtractor stringify db) now w =
     run config inspector (PostgresExtractor stringify db) now w"
  by (simp add: generateTableCreate_keep generateConstraints_keep run_strip_checks)

section \<open>Sequences are resynchronised to their last value\<close>





section \<open>Missing constraints and their fix\<close>

lemma compareConstraints_eq:
  "compareConstraints g source target ds =
     ds @ map (constraint_diff g source)
            (filter (\<lambda>c. con_name c \<notin> set (map con_name (constraints target)))
               (constraints source))"
  by (simp add: compareConstraints_def foldl_cond_append)

lemma pg_fix_includes:
  "con_type c \<noteq> CHECK \<Longrightarrow> str_includes (pg_generateConstraintFix t s c) ''ADD CONSTRAINT''"
  "con_type c \<noteq> CHECK \<Longrightarrow> str_includes (pg_generateConstraintFix t s c) (type_text (con_type c))"
  by (cases "con_type c"; simp add: pg_generateConstraintFix_def str_includes_skip)+

lemma ora_fix_includes:
  "con_type c \<noteq> CHECK \<Longrightarrow> str_includes (ora_generateConstraintFix t s c) ''ADD CONSTRAINT''"
  "con_type c \<noteq> CHECK \<Longrightarrow> str_includes (ora_generateConstraintFix t s c) (type_text (con_type c))"
  by (cases "con_type c"; simp add: ora_generateConstraintFix_def str_includes_skip)+

lemma fix_check: "con_type c = CHECK \<Longrightarrow> generateConstraintFix (createGenerator dbt) t s c = []"
  by (cases dbt) (simp_all add: PostgresDDLGenerator_def OracleDDLGenerator_def
       pg_generateConstraintFix_def ora_generateConstraintFix_def)

lemma fix_includes:
  "con_type c \<noteq> CHECK \<Longrightarrow>
     str_includes (generateConstraintFix (createGenerator dbt) t s c) ''ADD CONSTRAINT''"
  "con_type c \<noteq> CHECK \<Longrightarrow>
     str_includes (generateConstraintFix (createGenerator dbt) t s c) (type_text (con_type c))"
  by (cases dbt; simp add: PostgresDDLGenerator_def OracleDDLGenerator_def
        pg_fix_includes ora_fix_includes)+

text \<open>
  C4, as the code has it. \<open>compareConstraints\<close> appends, in source order, exactly one
  diff for every source constraint whose name no target constraint has; that diff is a
  MISSING_CONSTRAINT diff naming the constraint. For a PRIMARY KEY, FOREIGN KEY or UNIQUE
  constraint its fix is a statement containing \<open>ADD CONSTRAINT\<close> and the keyword of the
  kind; for a CHECK constraint its fix is the empty string. This holds for the generator of
  either engine.
\<close>

theorem missing_constraint_fix:
  "compareConstraints (createGenerator dbt) source target ds =
     ds @ map (constraint_diff (createGenerator dbt) source)
            (filter (\<lambda>c. con_name c \<notin> set (map con_name (constraints target)))
               (constraints source))
   \<and> diff_type (constraint_diff (createGenerator dbt) source c) = MISSING_CONSTRAINT
   \<and> column (constraint_diff (createGenerator dbt) source c) = Some (con_name c)
   \<and> (con_type c \<noteq> CHECK \<longrightarrow>
        (\<exists>stmt. diff_fix (constraint_diff (createGenerator dbt) source c) = Some stmt
           \<and> str_includes stmt ''ADD CONSTRAINT''
           \<and> str_includes stmt (type_text (con_type c))))
   \<and> (con_type c = CHECK \<longrightarrow>
        diff_fix (constraint_diff (createGenerator dbt) source c) = Some [])"
  by (simp add: compareConstraints_eq constraint_diff_def new_diff_def fix_check fix_includes)

theorem missing_constraint_fix_witness:
  \<open>map diff_fix (compareConstraints (createGenerator Postgres) (orders_with [uq_con])
       (orders_with []) [])
     = [Some ''ALTER TABLE "public"."orders" ADD CONSTRAINT "orders_code_key" UNIQUE ("code");'']
   \<and> str_includes
        ''ALTER TABLE "public"."orders" ADD CONSTRAINT "orders_code_key" UNIQUE ("code");''
        ''ADD CONSTRAINT''
   \<and> map diff_fix (compareConstraints (createGenerator Oracle) (orders_with [check_con])
         (orders_with []) [])
     = [Some []]\<close>
proof -
  have 1: "con_type uq_con \<noteq> CHECK" by (simp add: uq_con_def)
  have 2: "con_type check_con = CHECK" by (simp add: check_con_def)
  have f: \<open>diff_fix (constraint_diff (createGenerator Postgres) (orders_with [uq_con]) uq_con)
     = Some ''ALTER TABLE "public"."orders" ADD CONSTRAINT "orders_code_key" UNIQUE ("code");''\<close>
    by (simp add: constraint_diff_def new_diff_def PostgresDDLGenerator_def
        pg_generateConstraintFix_def orders_with_def uq_con_def quote_join_def)
  from missing_constraint_fix[of Postgres "orders_with [uq_con]" "orders_with []" "[]" uq_con] 1 f
  have a: \<open>map diff_fix (compareConstraints (createGenerator Postgres) (orders_with [uq_con])
       (orders_with []) [])
     = [Some ''ALTER TABLE "public"."orders" ADD CONSTRAINT "orders_code_key" UNIQUE ("code");'']\<close>
    and b: \<open>str_includes
        ''ALTER TABLE "public"."orders" ADD CONSTRAINT "orders_code_key" UNIQUE ("code");''
        ''ADD CONSTRAINT''\<close>
    by (simp_all add: orders_with_def)
  from missing_constraint_fix[of Oracle "orders_with [check_con]" "orders_with []" "[]" check_con] 2
  have c: "map diff_fix (compareConstraints (createGenerator Oracle) (orders_with [check_con])
       (orders_with []) []) = [Some []]"
    by (simp add: orders_with_def)
  from a b c show ?thesis by blast
qed

text \<open>
  The claim as stated fails for a CHECK constraint: the one diff it gets carries an empty
  fix, which is no \<open>ADD CONSTRAINT\<close> statement.
\<close>

theorem check_constraint_fix_empty:
  "map diff_type (compareConstraints (createGenerator Postgres) (orders_with [check_con])
       (orders_with []) []) = [MISSING_CONSTRAINT]
   \<and> map diff_fix (compareConstraints (createGenerator Postgres) (orders_with [check_con])
       (orders_with []) []) = [Some []]
   \<and> \<not> str_includes [] ''ADD CONSTRAINT''"
  by (simp add: compareConstraints_def orders_with_def check_con_def constraint_diff_def
      new_diff_def PostgresDDLGenerator_def pg_generateConstraintFix_def)

section \<open>Type mismatches are decided by the catalog type name\<close>

lemma compareColumns_eq:
  "compareColumns g source target ds =
     ds @ concat (map (column_diffs g source (target_column target)) (columns source))"
  by (simp add: compareColumns_def target_column_def foldl_append_concat)

lemma target_column_SomeD:
  assumes "target_column target n = Some tCol"
  shows "col_name tCol = n \<and> tCol \<in> set (columns target)"
proof -
  from assms have "(n, tCol) \<in> set (rev (map (\<lambda>c. (col_name c, c)) (columns target)))"
    unfolding target_column_def Map_of_entries_def by (rule map_of_SomeD)
  then show ?thesis by auto
qed

lemma column_diffs_types:
  "targetCols (col_name sCol) = Some tCol \<Longrightarrow>
     map diff_type (column_diffs g source targetCols sCol) =
       (if udtName sCol \<noteq> udtName tCol then [TYPE_MISMATCH] else [])
       @ (if isNullable sCol \<noteq> isNullable tCol then [NULLABILITY_MISMATCH] else [])
       @ (if columnDefault sCol \<noteq> columnDefault tCol then [DEFAULT_MISMATCH] else [])"
  by (simp add: column_diffs_def new_diff_def)

text \<open>
  C6. \<open>compareColumns\<close> appends, for every source column in order, the diffs of that
  column against the target column its name is looked up to. That target column has the
  same name, and a TYPE_MISMATCH diff is among the diffs of the pair if and only if the
  two \<open>udtName\<close>s differ; the display type, the character length and the numeric
  precision play no part.
\<close>

theorem type_mismatch_iff_udtName:
  "compareColumns generator source target ds =
     ds @ concat (map (column_diffs generator source (target_column target)) (columns source))
   \<and> (target_column target (col_name sCol) = Some tCol \<longrightarrow>
        col_name tCol = col_name sCol \<and> tCol \<in> set (columns target)
        \<and> (TYPE_MISMATCH \<in> set (map diff_type
               (column_diffs generator source (target_column target) sCol))
             \<longleftrightarrow> udtName sCol \<noteq> udtName tCol))"
proof (intro conjI impI)
  show "compareColumns generator source target ds =
     ds @ concat (map (column_diffs generator source (target_column target)) (columns source))"
    by (rule compareColumns_eq)
next
  assume a: "target_column target (col_name sCol) = Some tCol"
  from target_column_SomeD[OF a] show "col_name tCol = col_name sCol" "tCol \<in> set (columns target)"
    by simp_all
  from a show "TYPE_MISMATCH \<in> set (map diff_type
               (column_diffs generator source (target_column target) sCol))
             \<longleftrightarrow> udtName sCol \<noteq> udtName tCol"
    by (simp add: column_diffs_types)
qed

text \<open>
  \<open>varchar\<close> against \<open>text\<close> is a type mismatch; \<open>character varying(255)\<close>
  against \<open>varchar(50)\<close>, both of catalog type \<open>varchar\<close>, is none.
\<close>

theorem type_mismatch_iff_udtName_witness:
  "map diff_type (compareColumns (createGenerator Postgres)
      (books [title_column ''character varying'' ''varchar'' (Some 255)])
      (books [title_column ''text'' ''text'' None]) []) = [TYPE_MISMATCH]
  \<and> map diff_type (compareColumns (createGenerator Postgres)
      (books [title_column ''character varying'' ''varchar'' (Some 255)])
      (books [title_column ''varchar'' ''varchar'' (Some 50)]) []) = []"
proof -
  let ?s = "title_column ''character varying'' ''varchar'' (Some 255)"
  let ?t1 = "title_column ''text'' ''text'' None"
  let ?t2 = "title_column ''varchar'' ''varchar'' (Some 50)"
  have l1: "target_column (books [?t1]) (col_name ?s) = Some ?t1"
    by (simp add: target_column_def Map_of_entries_def books_def title_column_def)
  have l2: "target_column (books [?t2]) (col_name ?s) = Some ?t2"
    by (simp add: target_column_def Map_of_entries_def books_def title_column_def)
  have u1: "udtName ?s \<noteq> udtName ?t1" by (simp add: title_column_def)
  have u2: "udtName ?s = udtName ?t2" by (simp add: title_column_def)
  note m1 = type_mismatch_iff_udtName[of "createGenerator Postgres" "books [?s]" "books [?t1]" "[]" ?s ?t1]
  note m2 = type_mismatch_iff_udtName[of "createGenerator Postgres" "books [?s]" "books [?t2]" "[]" ?s ?t2]
  have a: "TYPE_MISMATCH \<in> set (map diff_type
      (column_diffs (createGenerator Postgres) (books [?s]) (target_column (books [?t1])) ?s))"
    using m1 l1 u1 by blast
  have b: "TYPE_MISMATCH \<notin> set (map diff_type
      (column_diffs (createGenerator Postgres) (books [?s]) (target_column (books [?t2])) ?s))"
    using m2 l2 u2 by blast
  have e1: "compareColumns (createGenerator Postgres) (books [?s]) (books [?t1]) [] =
      column_diffs (createGenerator Postgres) (books [?s]) (target_column (books [?t1])) ?s"
    using m1 by (simp add: books_def)
  have e2: "compareColumns (createGenerator Postgres) (books [?s]) (books [?t2]) [] =
      column_diffs (createGenerator Postgres) (books [?s]) (target_column (books [?t2])) ?s"
    using m2 by (simp add: books_def)
  have c1: "map diff_type (column_diffs (createGenerator Postgres) (books [?s]) (target_column (books [?t1])) ?s) = [TYPE_MISMATCH]"
    using l1 by (simp add: column_diffs_types title_column_def)
  have c2: "map diff_type (column_diffs (createGenerator Postgres) (books [?s]) (target_column (books [?t2])) ?s) = []"
    using l2 by (simp add: column_diffs_types title_column_def)
  from a b e1 e2 c1 c2 show ?thesis by simp
qed

section \<open>The aggregation of constraint rows\<close>

lemma set_dedup_first: "set (dedup_first xs) = set xs"
  by (induction xs rule: dedup_first.induct) auto

lemma distinct_dedup_first: "distinct (dedup_first xs)"
  by (induction xs rule: dedup_first.induct) (auto simp: set_dedup_first)

lemma dedup_first_snoc:
  "dedup_first (xs @ [x]) = (if x \<in> set xs then dedup_first xs else dedup_first xs @ [x])"
  by (induction xs rule: dedup_first.induct) auto

lemma dedup_first_remdups: "dedup_first xs = rev (remdups (rev xs))"
proof (induction xs rule: rev_induct)
  case Nil show ?case by simp
next
  case (snoc x xs)
  then show ?case by (simp add: dedup_first_snoc)
qed

lemma first_rows_names: "map row_name (first_rows rows) = dedup_first (map row_name rows)"
  by (induction rows rule: first_rows.induct) (simp_all add: filter_map comp_def)

lemma first_rows_snoc:
  "first_rows (rs @ [r]) =
     (if row_name r \<in> set (map row_name rs) then first_rows rs else first_rows rs @ [r])"
  by (induction rs rule: first_rows.induct) auto

lemma rows_of_snoc:
  "rows_of (rs @ [r]) n = rows_of rs n @ (if row_name r = n then [r] else [])"
  by (simp add: rows_of_def)

lemma aggregate_snoc:
  "aggregate f (rs @ [r]) = push_foreign_column r (push_column r (aggregate f rs))"
  by (cases "foreign_column r")
     (simp_all add: aggregate_def push_column_def push_foreign_column_def dedup_first_snoc
        set_dedup_first)

lemma aggregate_Nil:
  "aggregate r [] =
     \<lparr> con_name = row_name r, con_type = row_type r, con_columns = [],
       foreignTable = (if truthy_str (foreign_table r) then foreign_table r else None),
       foreignColumns = Some [], con_definition = None \<rparr>"
  by (cases "foreign_table r") (simp_all add: aggregate_def)

lemma spec_map_keys: "set (map fst (spec_map rows)) = set (map row_name rows)"
proof -
  have "map fst (spec_map rows) = map row_name (first_rows rows)"
    by (simp add: spec_map_def comp_def)
  then show ?thesis by (simp add: first_rows_names set_dedup_first)
qed

lemma constraint_step_spec: "constraint_step (spec_map rs) r = spec_map (rs @ [r])"
proof (cases "row_name r \<in> set (map row_name rs)")
  case True
  then have has: "map_has (spec_map rs) (row_name r)"
    unfolding map_has_def spec_map_keys by simp
  have "map_update_at (spec_map rs) (row_name r)
          (\<lambda>c. push_foreign_column r (push_column r c)) = spec_map (rs @ [r])"
    using True
    by (simp add: map_update_at_def spec_map_def first_rows_snoc rows_of_snoc aggregate_snoc)
  with has show ?thesis by (simp add: constraint_step_def)
next
  case False
  then have nhas: "\<not> map_has (spec_map rs) (row_name r)"
    unfolding map_has_def spec_map_keys by simp
  have other: "row_name f \<noteq> row_name r" if "f \<in> set (first_rows rs)" for f
  proof -
    from that have "row_name f \<in> set (map row_name (first_rows rs))" by simp
    then have "row_name f \<in> set (map row_name rs)"
      by (simp only: first_rows_names set_dedup_first)
    with False show ?thesis by auto
  qed
  have "row_name x \<noteq> row_name r" if "x \<in> set rs" for x
  proof
    assume "row_name x = row_name r"
    with that have "row_name r \<in> row_name ` set rs" by (metis imageI)
    with False show False by simp
  qed
  then have empty: "rows_of rs (row_name r) = []"
    by (simp add: rows_of_def filter_empty_conv)
  have old: "map (\<lambda>(k', v'). if k' = row_name r
                          then (k', push_foreign_column r (push_column r v')) else (k', v'))
               (spec_map rs) =
             map (\<lambda>f. (row_name f, aggregate f (rows_of (rs @ [r]) (row_name f))))
               (first_rows rs)"
    unfolding spec_map_def map_map
  proof (rule map_cong[OF refl])
    fix f assume "f \<in> set (first_rows rs)"
    then have "row_name f \<noteq> row_name r" by (rule other)
    then show "((\<lambda>(k', v'). if k' = row_name r
                   then (k', push_foreign_column r (push_column r v')) else (k', v')) \<circ>
               (\<lambda>first. (row_name first, aggregate first (rows_of rs (row_name first))))) f =
              (row_name f, aggregate f (rows_of (rs @ [r]) (row_name f)))"
      by (simp add: rows_of_snoc)
  qed
  have new: "push_foreign_column r (push_column r (aggregate r [])) =
             aggregate r (rows_of (rs @ [r]) (row_name r))"
    using empty aggregate_snoc[of r "[]" r] by (simp add: rows_of_snoc)
  have "map_update_at (spec_map rs @ [(row_name r, aggregate r [])]) (row_name r)
          (\<lambda>c. push_foreign_column r (push_column r c)) = spec_map (rs @ [r])"
    using False by (simp add: map_update_at_def old new) (simp add: spec_map_def first_rows_snoc)
  with nhas show ?thesis
    by (simp add: constraint_step_def map_set_def aggregate_Nil)
qed

lemma foldl_constraint_step: "foldl constraint_step [] rows = spec_map rows"
proof (induction rows rule: rev_induct)
  case Nil
  show ?case by (simp add: spec_map_def)
next
  case (snoc r rs)
  then show ?case by (simp add: constraint_step_spec)
qed

text \<open>
  C7. On the rows of the catalog join, \<open>getConstraints\<close> returns the constraints the
  spec describes: one per distinct constraint name, in the order in which the names are
  first seen (which is the library's \<open>remdups\<close> read from the front), each with its
  columns and its referenced columns without repetition and in first-seen order.
\<close>

theorem getConstraints_aggregates:
  "getConstraints (Inr rows) = Inr (constraints_spec rows)
   \<and> map con_name (constraints_spec rows) = dedup_first (map row_name rows)
   \<and> distinct (map con_name (constraints_spec rows))
   \<and> set (map con_name (constraints_spec rows)) = set (map row_name rows)
   \<and> dedup_first (map row_name rows) = rev (remdups (rev (map row_name rows)))"
proof -
  have "map snd (spec_map rows) = constraints_spec rows"
    by (simp add: spec_map_def constraints_spec_def comp_def)
  then have 1: "getConstraints (Inr rows) = Inr (constraints_spec rows)"
    by (simp add: getConstraints_def foldl_constraint_step)
  have 2: "map con_name (constraints_spec rows) = dedup_first (map row_name rows)"
    by (simp add: constraints_spec_def comp_def aggregate_def first_rows_names[symmetric])
  from 1 2 show ?thesis
    by (simp add: distinct_dedup_first set_dedup_first dedup_first_remdups[symmetric])
qed

text \<open>
  A two-column foreign key, whose join has a row for every pair of a column and a
  referenced column, between two rows of a primary key.
\<close>

lemma getConstraints_example:
  "getConstraints (Inr [fk_row ''cust_id'' ''id'', pk_row, fk_row ''cust_id'' ''region'',
      fk_row ''cust_region'' ''id'', fk_row ''cust_region'' ''region'', pk_row]) =
   Inr [\<lparr> con_name = ''orders_customer_fk'', con_type = FOREIGN_KEY,
           con_columns = [''cust_id'', ''cust_region''], foreignTable = Some ''customers'',
           foreignColumns = Some [''id'', ''region''], con_definition = None \<rparr>,
        \<lparr> con_name = ''orders_pkey'', con_type = PRIMARY_KEY, con_columns = [''id''],
           foreignTable = Some ''orders'', foreignColumns = Some [''id''],
           con_definition = None \<rparr>]"
  by (simp add: getConstraints_def constraint_step_def map_has_def map_set_def
      map_update_at_def push_column_def push_foreign_column_def fk_row_def pk_row_def)


section \<open>Streaming a table in pages\<close>

lemma chunks_lengths: "map length (chunks p xs) = chunk_sizes p (length xs)"
proof (induction p xs rule: chunks.induct)
  case (1 n xs)
  show ?case
  proof (cases "xs = [] \<or> n = 0")
    case True
    then show ?thesis by (subst chunks.simps, subst chunk_sizes.simps) auto
  next
    case False
    with 1 show ?thesis by (subst chunks.simps, subst chunk_sizes.simps) (simp add: min_def)
  qed
qed

lemma chunks_nonempty: "[] \<notin> set (chunks p xs)"
proof (induction p xs rule: chunks.induct)
  case (1 n xs)
  show ?case
  proof (cases "xs = [] \<or> n = 0")
    case True
    then show ?thesis by (subst chunks.simps) auto
  next
    case False
    with 1 show ?thesis by (subst chunks.simps) auto
  qed
qed

lemma concat_chunks: "0 < p \<Longrightarrow> concat (chunks p xs) = xs"
proof (induction p xs rule: chunks.induct)
  case (1 n xs)
  show ?case
  proof (cases "xs = []")
    case True
    then show ?thesis by (subst chunks.simps) auto
  next
    case False
    with 1 show ?thesis by (subst chunks.simps) auto
  qed
qed

lemma stream_loop_chunks:
  assumes "0 < p"
  shows "fault c = None \<Longrightarrow>
     stream_loop S meta p c =
       \<lparr> batches = map (map (formatInsert S meta)) (chunks p (remaining c)),
         failure = None,
         fetches = map length (chunks p (remaining c)) @ [0] \<rparr>"
proof (induction "length (remaining c)" arbitrary: c rule: less_induct)
  case less
  let ?c' = "c\<lparr>remaining := drop p (remaining c)\<rparr>"
  from less.prems have rd: "cursor_read p c = Inr (take p (remaining c), ?c')"
    by (simp add: cursor_read_def)
  show ?case
  proof (cases "remaining c = []")
    case True
    with rd show ?thesis
      by (subst stream_loop.simps, subst chunks.simps, subst chunks.simps) simp
  next
    case False
    with assms have "length (remaining ?c') < length (remaining c)" by simp
    moreover have "fault ?c' = None" using less.prems by simp
    ultimately have IH: "stream_loop S meta p ?c' =
       \<lparr> batches = map (map (formatInsert S meta)) (chunks p (remaining ?c')),
         failure = None,
         fetches = map length (chunks p (remaining ?c')) @ [0] \<rparr>"
      by (rule less.hyps)
    from False assms have ne: "take p (remaining c) \<noteq> []" by (cases p; cases "remaining c"; simp)
    from False assms have ch: "chunks p (remaining c) =
        take p (remaining c) # chunks p (drop p (remaining c))"
      by (subst chunks.simps) simp
    from rd ne IH show ?thesis
      by (subst stream_loop.simps) (simp add: ch)
  qed
qed

lemma sizes_10050: "chunk_sizes 1000 10050 = replicate 10 1000 @ [50]"
  by (simp add: chunk_sizes.simps eval_nat_numeral)

lemma stream_loop_nonempty: "[] \<notin> set (batches (stream_loop S meta p c))"
proof (induction S meta p c rule: stream_loop.induct)
  case (1 S meta p c)
  show ?case
  proof (cases "cursor_read p c")
    case (Inl e)
    then show ?thesis by (subst stream_loop.simps) simp
  next
    case (Inr x)
    obtain rows c' where x: "(rows, c') = x" by (cases x) auto
    show ?thesis
    proof (cases "rows = []")
      case True
      with Inr x show ?thesis by (subst stream_loop.simps) auto
    next
      case False
      then have "0 < length rows" by simp
      from 1[OF Inr x this refl] have "[] \<notin> set (batches (stream_loop S meta p c'))" .
      with Inr x False show ?thesis by (subst stream_loop.simps) (auto simp: Let_def)
    qed
  qed
qed

text \<open>
  C3. Whatever the connection, the cursor and the page size, no batch that
  \<open>streamTableData\<close> yields is empty. With a page size of at least 1 and a cursor whose
  reads succeed, the generator ends without an error; its batches are the INSERT statements
  of the table's rows, in order, cut into pages of the page size; every read but the last
  returned the rows of one batch, and the last read, which ends the iteration, returned no
  row. For 10,050 rows and a page size of 1000 the batches have 1000 statements ten times,
  then 50.
\<close>

theorem streamTableData_batches:
  assumes "1 \<le> p" and "fault cursor = None"
  shows "[] \<notin> set (batches (streamTableData S db meta q))
       \<and> batches (streamTableData S (\<lambda>query. Inr cursor) meta p) =
            map (map (formatInsert S meta)) (chunks p (remaining cursor))
       \<and> concat (batches (streamTableData S (\<lambda>query. Inr cursor) meta p)) =
            map (formatInsert S meta) (remaining cursor)
       \<and> [] \<notin> set (batches (streamTableData S (\<lambda>query. Inr cursor) meta p))
       \<and> failure (streamTableData S (\<lambda>query. Inr cursor) meta p) = None
       \<and> fetches (streamTableData S (\<lambda>query. Inr cursor) meta p) =
            map length (batches (streamTableData S (\<lambda>query. Inr cursor) meta p)) @ [0]
       \<and> (p = 1000 \<and> length (remaining cursor) = 10050 \<longrightarrow>
            map length (batches (streamTableData S (\<lambda>query. Inr cursor) meta p)) =
              replicate 10 1000 @ [50])"
proof -
  from assms have p: "0 < p" by simp
  have s: "streamTableData S (\<lambda>query. Inr cursor) meta p =
       \<lparr> batches = map (map (formatInsert S meta)) (chunks p (remaining cursor)),
         failure = None,
         fetches = map length (chunks p (remaining cursor)) @ [0] \<rparr>"
    using stream_loop_chunks[OF p assms(2)] by (simp add: streamTableData_def)
  have c: "concat (map (map (formatInsert S meta)) (chunks p (remaining cursor))) =
        map (formatInsert S meta) (remaining cursor)"
    using concat_chunks[OF p, of "remaining cursor"] by (simp add: map_concat[symmetric])
  have n: "[] \<notin> set (map (map (formatInsert S meta)) (chunks p (remaining cursor)))"
    using chunks_nonempty[of p "remaining cursor"] by auto
  have l: "map length (map (map (formatInsert S meta)) (chunks p (remaining cursor))) =
       chunk_sizes p (length (remaining cursor))"
    by (simp add: comp_def chunks_lengths[symmetric])
  have t: "p = 1000 \<and> length (remaining cursor) = 10050 \<longrightarrow>
       map length (map (map (formatInsert S meta)) (chunks p (remaining cursor))) =
         replicate 10 1000 @ [50]"
  proof
    assume "p = 1000 \<and> length (remaining cursor) = 10050"
    then have "chunk_sizes p (length (remaining cursor)) = replicate 10 1000 @ [50]"
      using sizes_10050 by simp
    with l show "map length (map (map (formatInsert S meta)) (chunks p (remaining cursor))) =
         replicate 10 1000 @ [50]"
      by (simp only:)
  qed
  have f: "map length (chunks p (remaining cursor)) =
       map length (map (map (formatInsert S meta)) (chunks p (remaining cursor)))"
    by (simp add: comp_def)
  have g: "[] \<notin> set (batches (streamTableData S db meta q))"
    by (simp add: streamTableData_def stream_loop_nonempty split: sum.splits)
  show ?thesis
    unfolding s Streamed.simps f using g c n t by blast
qed

text \<open>
  The table of 10,050 rows read by pages of 1000, and a table of three rows read by pages
  of two: reads of 2, 1 and 0 rows, and two batches.
\<close>

theorem streamTableData_batches_witness:
  \<open>map length (batches (streamTableData js_toString
       (\<lambda>query. Inr \<lparr>remaining = replicate 10050 [(''id'', JNum 7)], fault = None\<rparr>)
       id_table 1000)) = replicate 10 1000 @ [50]
   \<and> fetches (streamTableData js_toString (\<lambda>query. Inr \<lparr>remaining = three_rows, fault = None\<rparr>)
       id_table 2) = [2, 1, 0]
   \<and> batches (streamTableData js_toString (\<lambda>query. Inr \<lparr>remaining = three_rows, fault = None\<rparr>)
       id_table 2) =
      [[''INSERT INTO public.t ("id") VALUES (1);'', ''INSERT INTO public.t ("id") VALUES (2);''],
       [''INSERT INTO public.t ("id") VALUES (3);'']]\<close>
proof -
  let ?big = "\<lparr>remaining = replicate 10050 [(''id'', JNum 7)], fault = None\<rparr>"
  let ?small = "\<lparr>remaining = three_rows, fault = None\<rparr>"
  have h1: "(1::nat) \<le> 1000" and h2: "(1::nat) \<le> 2" by simp_all
  have f1: "fault ?big = None" and f2: "fault ?small = None" by simp_all
  note a = streamTableData_batches[OF h1 f1, where S=js_toString and meta=id_table]
  note b = streamTableData_batches[OF h2 f2, where S=js_toString and meta=id_table]
  have ch: "chunks 2 three_rows = [[[(''id'', JNum 1)], [(''id'', JNum 2)]], [[(''id'', JNum 3)]]]"
    by (simp add: chunks.simps three_rows_def)
  have fi: \<open>formatInsert js_toString id_table [(''id'', JNum k)] =
      ''INSERT INTO public.t ("id") VALUES ('' @ number_text k @ '');''\<close> for k
    by (simp add: formatInsert_def id_table_def row_get_def toLowerCase_def lower_char_def
        is_numeric_type_def)
  have si: "number_text 1 = ''1''" "number_text 2 = ''2''" "number_text 3 = ''3''"
    by (simp_all add: number_text_def digit_char_def char_eval)
  from a have "(1000::nat) = 1000 \<and> length (remaining ?big) = 10050 \<longrightarrow>
      map length (batches (streamTableData js_toString (\<lambda>query. Inr ?big) id_table 1000)) =
        replicate 10 1000 @ [50]"
    by blast
  then have 1: "map length (batches (streamTableData js_toString (\<lambda>query. Inr ?big) id_table 1000)) =
        replicate 10 1000 @ [50]"
    by simp
  from b have 2: "batches (streamTableData js_toString (\<lambda>query. Inr ?small) id_table 2) =
      map (map (formatInsert js_toString id_table)) (chunks 2 three_rows)"
    and 3: "fetches (streamTableData js_toString (\<lambda>query. Inr ?small) id_table 2) =
      map length (batches (streamTableData js_toString (\<lambda>query. Inr ?small) id_table 2)) @ [0]"
    by simp_all
  from 2 have 4: \<open>batches (streamTableData js_toString (\<lambda>query. Inr ?small) id_table 2) =
      [[''INSERT INTO public.t ("id") VALUES (1);'', ''INSERT INTO public.t ("id") VALUES (2);''],
       [''INSERT INTO public.t ("id") VALUES (3);'']]\<close>
    by (simp add: ch fi si)
  from 3 4 have 5: "fetches (streamTableData js_toString (\<lambda>query. Inr ?small) id_table 2) = [2, 1, 0]"
    by simp
  from 1 4 5 show ?thesis by blast
qed

section \<open>The formatting of values\<close>

text \<open>The branches of \<open>formatValue\<close>, in the order in which the code tests them.\<close>

lemma formatValue_null:
  "formatValue stringify JNull ty = ''NULL''"
  "formatValue stringify JUndefined ty = ''NULL''"
  by simp_all

lemma formatValue_boolean:
  "val \<noteq> JNull \<Longrightarrow> val \<noteq> JUndefined \<Longrightarrow> toLowerCase ty = ''boolean'' \<Longrightarrow>
     formatValue stringify val ty = (if truthy val then ''TRUE'' else ''FALSE'')"
  by (cases val) simp_all

lemma formatValue_numeric:
  "val \<noteq> JNull \<Longrightarrow> val \<noteq> JUndefined \<Longrightarrow> toLowerCase ty \<noteq> ''boolean'' \<Longrightarrow>
   is_numeric_type (toLowerCase ty) \<Longrightarrow>
     formatValue stringify val ty = js_toString val"
  by (cases val) simp_all

lemma formatValue_json:
  "val \<noteq> JNull \<Longrightarrow> val \<noteq> JUndefined \<Longrightarrow> toLowerCase ty \<noteq> ''boolean'' \<Longrightarrow>
   \<not> is_numeric_type (toLowerCase ty) \<Longrightarrow> str_includes (toLowerCase ty) ''json'' \<Longrightarrow>
     formatValue stringify val ty =
       [CHR 0x27] @ double_quotes (stringify val) @ [CHR 0x27] @ ''::'' @ toLowerCase ty"
  by (cases val) simp_all

lemma formatValue_bytea:
  "toLowerCase ty = ''bytea'' \<Longrightarrow>
     formatValue stringify (JBuffer bs) ty =
       [CHR 0x27, CHR 0x5C] @ ''x'' @ toString_hex bs @ [CHR 0x27]"
  by (simp add: is_numeric_type_def)

lemma formatValue_array:
  "toLowerCase ty \<noteq> ''boolean'' \<Longrightarrow> \<not> is_numeric_type (toLowerCase ty) \<Longrightarrow>
   \<not> str_includes (toLowerCase ty) ''json'' \<Longrightarrow> toLowerCase ty \<noteq> ''bytea'' \<Longrightarrow>
     formatValue stringify (JArray vs) ty =
       ''ARRAY['' @ join '','' (map (\<lambda>v. formatValue stringify v ''text'') vs) @ '']''"
  by simp

lemma formatValue_other:
  "val \<noteq> JNull \<Longrightarrow> val \<noteq> JUndefined \<Longrightarrow> (\<forall>vs. val \<noteq> JArray vs) \<Longrightarrow>
   toLowerCase ty \<noteq> ''boolean'' \<Longrightarrow> \<not> is_numeric_type (toLowerCase ty) \<Longrightarrow>
   \<not> str_includes (toLowerCase ty) ''json'' \<Longrightarrow> toLowerCase ty \<noteq> ''bytea'' \<Longrightarrow>
     formatValue stringify val ty = [CHR 0x27] @ double_quotes (js_toString val) @ [CHR 0x27]"
  by (cases val) simp_all

lemma double_quotes_example:
  "double_quotes (''it'' @ [CHR 0x27] @ ''s'') = ''it'' @ [CHR 0x27, CHR 0x27] @ ''s''"
  by (simp add: double_quotes_def)

text \<open>
  C8 at a value whose declared type is \<open>interval\<close> or \<open>point\<close>. Neither is a numeric
  type, so the claim has the value single-quoted; the code tests \<open>t.includes('int')\<close>,
  which both names satisfy, and returns the text of the value with no quotes.
\<close>

theorem formatValue_interval_unquoted:
  "formatValue stringify (JStr ''1 day'') ''interval'' = ''1 day''
   \<and> formatValue stringify (JObject ''(1,2)'') ''point'' = ''(1,2)''
   \<and> formatValue stringify (JStr ''1 day'') ''text'' = [CHR 0x27] @ ''1 day'' @ [CHR 0x27]"
  by (simp add: toLowerCase_def lower_char_def is_numeric_type_def double_quotes_def)

section \<open>The order of the backup output\<close>














lemma sorted_body_ranks: "sorted (body_ranks n d)"
  by (auto simp: body_ranks_def sorted_append)











section \<open>Comparing a schema with a copy of itself\<close>

lemma Map_of_entries_distinct:
  assumes "distinct (map fst es)" and "(k, v) \<in> set es"
  shows "Map_of_entries es k = Some v"
proof -
  from assms(1) have "distinct (map fst (rev es))" by (simp add: rev_map[symmetric])
  moreover from assms(2) have "(k, v) \<in> set (rev es)" by simp
  ultimately show ?thesis unfolding Map_of_entries_def by (rule map_of_is_SomeI)
qed

lemma column_diffs_same:
  "targetCols (col_name c) = Some c' \<Longrightarrow> udtName c' = udtName c \<Longrightarrow>
   isNullable c' = isNullable c \<Longrightarrow> columnDefault c' = columnDefault c \<Longrightarrow>
   column_diffs g source targetCols c = []"
  by (simp add: column_diffs_def)

lemma compareColumns_same:
  assumes "columns target = columns source" and "distinct (map col_name (columns source))"
  shows "compareColumns g source target ds = ds"
proof -
  have "column_diffs g source (target_column target) c = []" if "c \<in> set (columns source)" for c
  proof -
    from that assms have "target_column target (col_name c) = Some c"
      unfolding target_column_def
      by (intro Map_of_entries_distinct) (auto simp: comp_def)
    then show ?thesis by (rule column_diffs_same) simp_all
  qed
  then have "concat (map (column_diffs g source (target_column target)) (columns source)) = []"
    by simp
  then show ?thesis by (simp add: compareColumns_eq)
qed

lemma compareConstraints_same:
  "constraints target = constraints source \<Longrightarrow> compareConstraints g source target ds = ds"
  by (simp add: compareConstraints_eq filter_empty_conv)

lemma compareIndexes_eq:
  "compareIndexes source target ds =
     ds @ map (index_diff source)
            (filter (\<lambda>i. idx_name i \<notin> set (map idx_name (indexes target))) (indexes source))"
  by (simp add: compareIndexes_def foldl_cond_append)

lemma compareIndexes_same:
  "indexes target = indexes source \<Longrightarrow> compareIndexes source target ds = ds"
  by (simp add: compareIndexes_eq filter_empty_conv)

lemma compare_tables_same:
  assumes "\<forall>t\<in>set ts. \<exists>m m'. getTableMetadata src ss t = Inr m
        \<and> getTableMetadata tgt tsch t = Inr m' \<and> columns m' = columns m
        \<and> constraints m' = constraints m \<and> indexes m' = indexes m
        \<and> distinct (map col_name (columns m))"
    and "set ts \<subseteq> set targetTables"
  shows "compare_tables g src tgt ss tsch targetTables ts ds = Inr ds"
  using assms
proof (induction ts)
  case Nil
  show ?case by simp
next
  case (Cons t ts)
  from Cons.prems(1) obtain m m' where sm: "getTableMetadata src ss t = Inr m"
    and tm: "getTableMetadata tgt tsch t = Inr m'" and c: "columns m' = columns m"
    and k: "constraints m' = constraints m" and i: "indexes m' = indexes m"
    and d: "distinct (map col_name (columns m))" by auto
  from Cons.prems(2) have mem: "t \<in> set targetTables" by simp
  have "compareIndexes m m' (compareConstraints g m m' (compareColumns g m m' ds)) = ds"
    by (simp add: compareColumns_same[OF c d] compareConstraints_same[OF k]
        compareIndexes_same[OF i])
  moreover have "compare_tables g src tgt ss tsch targetTables ts ds = Inr ds"
    using Cons.prems by (intro Cons.IH) auto
  ultimately show ?case using sm tm mem by simp
qed

lemma function_diffs_same:
  "targetFuncMap (obj_name f) = Some f \<Longrightarrow> function_diffs targetFuncMap f = []"
  by (simp add: function_diffs_def)

lemma trigger_diffs_same:
  "targetTrigMap (trigger_key t) = Some t \<Longrightarrow> trigger_diffs g targetTrigMap t = []"
  by (simp add: trigger_diffs_def)

lemma compareFunctions_same:
  assumes "listFunctions src ss = Inr fs" and "listFunctions tgt ts = Inr fs"
    and "distinct (map obj_name fs)"
  shows "compareFunctions src tgt ss ts ds = Inr ds"
proof -
  have "function_diffs (Map_of_entries (map (\<lambda>f. (obj_name f, f)) fs)) f = []"
    if "f \<in> set fs" for f
    using that assms(3)
    by (intro function_diffs_same Map_of_entries_distinct) (auto simp: comp_def)
  then have "concat (map (function_diffs (Map_of_entries (map (\<lambda>f. (obj_name f, f)) fs))) fs) = []"
    by simp
  with assms(1,2) show ?thesis
    by (simp add: compareFunctions_def foldl_append_concat)
qed

lemma compareTriggers_same:
  assumes "listTriggers src ss = Inr trs" and "listTriggers tgt ts = Inr trs"
    and "distinct (map trigger_key trs)"
  shows "compareTriggers g src tgt ss ts ds = Inr ds"
proof -
  have "trigger_diffs g (Map_of_entries (map (\<lambda>t. (trigger_key t, t)) trs)) t = []"
    if "t \<in> set trs" for t
    using that assms(3)
    by (intro trigger_diffs_same Map_of_entries_distinct) (auto simp: comp_def)
  then have "concat (map (trigger_diffs g (Map_of_entries (map (\<lambda>t. (trigger_key t, t)) trs))) trs) = []"
    by simp
  with assms(1,2) show ?thesis
    by (simp add: compareTriggers_def foldl_append_concat)
qed

text \<open>
  What the code does guarantee of C5: two schemas with the same tables, the same columns,
  constraints and indexes in every table, and the same functions and triggers compare with
  no diff when no table has two columns of one name, no two functions have one name and no
  two triggers have one table and name.
\<close>

lemma compare_identical_no_diffs:
  assumes "listTables src ss None = Inr tbls" and "listTables tgt ts None = Inr tbls"
    and "\<forall>t\<in>set tbls. \<exists>m m'. getTableMetadata src ss t = Inr m
        \<and> getTableMetadata tgt ts t = Inr m' \<and> columns m' = columns m
        \<and> constraints m' = constraints m \<and> indexes m' = indexes m
        \<and> distinct (map col_name (columns m))"
    and "listFunctions src ss = Inr fs" and "listFunctions tgt ts = Inr fs"
    and "distinct (map obj_name fs)"
    and "listTriggers src ss = Inr trs" and "listTriggers tgt ts = Inr trs"
    and "distinct (map trigger_key trs)"
  shows "compare dbt src tgt ss ts = Inr \<lparr> sourceDb = ss, targetDb = ts, diffs = [] \<rparr>"
proof -
  have 1: "compare_tables (createGenerator dbt) src tgt ss ts tbls tbls [] = Inr []"
    using assms(3) by (intro compare_tables_same) auto
  have 2: "compareFunctions src tgt ss ts [] = Inr []"
    using assms(4,5,6) by (rule compareFunctions_same)
  have 3: "compareTriggers (createGenerator dbt) src tgt ss ts [] = Inr []"
    using assms(7,8,9) by (rule compareTriggers_same)
  show ?thesis
    unfolding compare_def Let_def by (simp add: assms(1,2) 1 2 3)
qed

text \<open>
  C5 at a schema with an overloaded function, compared with itself. The target functions
  are put in a Map keyed by name, which keeps the last of the two \<open>area\<close> functions;
  the first source function is compared with it and reported as a FUNCTION_MISMATCH, where
  the claim has an empty list of diffs.
\<close>

theorem compare_overloaded_functions:
  "map_sum id (\<lambda>res. map diff_type (diffs res))
     (compare Postgres (functions_inspector area_functions) (functions_inspector area_functions)
        ''public'' ''public'') = Inr [FUNCTION_MISMATCH]"
  by (simp add: compare_def compareFunctions_def compareTriggers_def functions_inspector_def
      area_functions_def function_diffs_def Map_of_entries_def new_diff_def)

lemma compare_identical_no_diffs_example:
  "compare Postgres shop_inspector shop_inspector ''public'' ''public'' =
     Inr \<lparr> sourceDb = ''public'', targetDb = ''public'', diffs = [] \<rparr>"
proof (rule compare_identical_no_diffs[where tbls="[''orders'']" and fs="[]" and trs="[]"])
  show "\<forall>t\<in>set [''orders'']. \<exists>m m'. getTableMetadata shop_inspector ''public'' t = Inr m
        \<and> getTableMetadata shop_inspector ''public'' t = Inr m' \<and> columns m' = columns m
        \<and> constraints m' = constraints m \<and> indexes m' = indexes m
        \<and> distinct (map col_name (columns m))"
    by (simp add: shop_inspector_def orders_table_def)
qed (simp_all add: shop_inspector_def)

section \<open>Diffs are about the source\<close>












end
